theory Spec2Isabelle
  imports Complex_Main "HOL-Library.Log_Nat" "HOL-Library.Sublist"
begin

section \<open>Python values\<close>

subsection \<open>Strings\<close>

text \<open>
  A Python \<open>str\<close> is a sequence of Unicode code points; it is modelled as the list of
  these code points. The Japanese literals of the sources are written out code point by
  code point.
\<close>

type_synonym ustr = "nat list"

definition ascii :: "string \<Rightarrow> ustr" where
  "ascii s = map of_char s"

text \<open>\<open>text.startswith(kw)\<close> and the substring test \<open>kw in text\<close>.\<close>

fun startswith :: "ustr \<Rightarrow> ustr \<Rightarrow> bool" where
  "startswith [] text = True"
| "startswith (k # ks) [] = False"
| "startswith (k # ks) (c # cs) = (k = c \<and> startswith ks cs)"

fun contains :: "ustr \<Rightarrow> ustr \<Rightarrow> bool" where
  "contains kw [] = (kw = [])"
| "contains kw (c # cs) = (startswith kw (c # cs) \<or> contains kw cs)"

text \<open>\<open>str(n)\<close> for a non-negative integer, as the f-strings of the profiler use it.\<close>

fun str_of_nat :: "nat \<Rightarrow> ustr" where
  "str_of_nat n =
     (if n < 10 then [48 + n] else str_of_nat (n div 10) @ [48 + n mod 10])"

subsection \<open>Floats\<close>

text \<open>
  A finite Python \<open>float\<close> is an IEEE 754 binary64 number. It is modelled by the rational
  it denotes; every arithmetic operation rounds the exact result to 53 significant bits,
  ties to even (\<open>fl\<close>). The exponent range is not modelled: all quotients computed by
  the sources are ratios of list lengths and lie far inside it.
\<close>

definition pow2 :: "int \<Rightarrow> rat" where
  "pow2 e = (if 0 \<le> e then 2 ^ nat e else 1 / 2 ^ nat (- e))"

definition round_half_even :: "rat \<Rightarrow> int" where
  "round_half_even y =
     (let f = \<lfloor>y\<rfloor>; d = y - of_int f in
      if d < 1 / 2 then f
      else if 1 / 2 < d then f + 1
      else if even f then f else f + 1)"

text \<open>\<open>binade x\<close> is the exponent \<open>e\<close> with \<open>2^e \<le> |x| < 2^(e+1)\<close>.\<close>

definition binade :: "rat \<Rightarrow> int" where
  "binade x =
     (let (p, q) = quotient_of \<bar>x\<bar>; e = bitlen p - bitlen q in
      if pow2 e \<le> \<bar>x\<bar> then e else e - 1)"

definition fl :: "rat \<Rightarrow> rat" where
  "fl x = (if x = 0 then 0
           else let u = pow2 (binade x - 52) in of_int (round_half_even (x / u)) * u)"

definition fadd :: "rat \<Rightarrow> rat \<Rightarrow> rat" where
  "fadd a b = fl (a + b)"

definition fsub :: "rat \<Rightarrow> rat \<Rightarrow> rat" where
  "fsub a b = fl (a - b)"

definition fmul :: "rat \<Rightarrow> rat \<Rightarrow> rat" where
  "fmul a b = fl (a * b)"

text \<open>True division \<open>a / b\<close>; every divisor in the sources is guarded to be non-zero.\<close>

definition fdiv :: "rat \<Rightarrow> rat \<Rightarrow> rat" where
  "fdiv a b = fl (a / b)"

text \<open>\<open>min(a, b)\<close> and \<open>max(a, b)\<close> keep the first argument unless the second is
  strictly better.\<close>

definition pymin :: "rat \<Rightarrow> rat \<Rightarrow> rat" where
  "pymin a b = (if b < a then b else a)"

definition pymax :: "rat \<Rightarrow> rat \<Rightarrow> rat" where
  "pymax a b = (if a < b then b else a)"

text \<open>\<open>round(x, 1)\<close>: the exact value of \<open>x\<close> rounded to one decimal, ties to even.\<close>

definition pyround1 :: "rat \<Rightarrow> rat" where
  "pyround1 x = fl (of_int (round_half_even (x * 10)) / 10)"

text \<open>A float read from JSON may also be an infinity or a NaN.\<close>

datatype pyfloat = Finite rat | PosInf | NegInf | NaN

fun float_lt :: "pyfloat \<Rightarrow> pyfloat \<Rightarrow> bool" where
  "float_lt NaN y = False"
| "float_lt x NaN = False"
| "float_lt (Finite a) (Finite b) = (a < b)"
| "float_lt (Finite a) PosInf = True"
| "float_lt (Finite a) NegInf = False"
| "float_lt PosInf y = False"
| "float_lt NegInf NegInf = False"
| "float_lt NegInf y = True"

definition float_min :: "pyfloat \<Rightarrow> pyfloat \<Rightarrow> pyfloat" where
  "float_min a b = (if float_lt b a then b else a)"

definition float_max :: "pyfloat \<Rightarrow> pyfloat \<Rightarrow> pyfloat" where
  "float_max a b = (if float_lt a b then b else a)"

subsection \<open>Exceptions and JSON\<close>

text \<open>
  The exceptions below are all instances of Python's \<open>Exception\<close>, the class the
  handlers of the sources name. \<open>ClientError\<close> stands for whatever the text-generation
  client raises.
\<close>

datatype exn = AttributeError | OverflowError | ValueError | IndexError | ClientError ustr

datatype json =
    JNull
  | JBool bool
  | JInt int
  | JFloat pyfloat
  | JStr ustr
  | JList "json list"
  | JDict "(ustr \<times> json) list"

text \<open>\<open>float(n)\<close> for an integer raises \<open>OverflowError\<close> once \<open>n\<close> rounds to
  \<open>2^1024\<close>.\<close>

definition float_of_int :: "int \<Rightarrow> exn + pyfloat" where
  "float_of_int n =
     (if \<bar>n\<bar> < 2 ^ 1024 - 2 ^ 970 then Inr (Finite (fl (of_int n))) else Inl OverflowError)"

section \<open>The text-generation client\<close>

datatype usage_role = FAST | BALANCED | DEEP

datatype role = System | User | Assistant

type_synonym message = "role \<times> ustr"

text \<open>
  The client is an external collaborator. One provider is modelled by what its three
  operations do when called: \<open>initialize\<close> returns the exception it raises, if any;
  \<open>generate_json\<close> and \<open>generate_text\<close> return either an exception or the parsed
  JSON value, respectively the \<open>content\<close> of the reply.
\<close>

record provider =
  initialize :: "exn option"
  generate_json :: "message list \<Rightarrow> rat \<Rightarrow> exn + json"
  generate_text :: "message list \<Rightarrow> rat \<Rightarrow> exn + ustr"

text \<open>\<open>llm_manager.get_client(role)\<close> returns a provider or raises.\<close>

type_synonym llm_manager = "usage_role \<Rightarrow> exn + provider"

section \<open>Intent router (\<open>intent_router.py\<close>)\<close>

text \<open>
  Modelled from the spec: the enumeration \<open>ConversationIntent\<close>
  (\<open>app/schemas/conversation.py\<close> is not among the sources). Section 3 of the
  specification lists its members in this order; the router itself names the first five.
\<close>

datatype conversation_intent = CHAT | EMPATHY | KNOWLEDGE | DEEP_DIVE | BRAINSTORM | STATE

definition conversation_intents :: "conversation_intent list" where
  "conversation_intents = [CHAT, EMPATHY, KNOWLEDGE, DEEP_DIVE, BRAINSTORM, STATE]"

definition empathy_keywords :: "ustr list" where
  "empathy_keywords =
    [[0x3064, 0x3089, 0x3044],
     [0x3057, 0x3093, 0x3069, 0x3044],
     [0x75B2, 0x308C, 0x305F],
     [0x5ACC, 0x3060],
     [0x3072, 0x3069, 0x3044],
     [0x60B2, 0x3057, 0x3044],
     [0x4E0D, 0x5B89],
     [0x6016, 0x3044],
     [0x5BC2, 0x3057, 0x3044],
     [0x30A4, 0x30E9, 0x30A4, 0x30E9],
     [0x30E0, 0x30AB, 0x3064, 0x304F],
     [0x6700, 0x60AA],
     [0x805E, 0x3044, 0x3066],
     [0x5410, 0x304D, 0x51FA, 0x3057],
     [0x611A, 0x75F4],
     [0x305F, 0x3081, 0x606F]]"

definition knowledge_keywords :: "ustr list" where
  "knowledge_keywords =
    [[0x6559, 0x3048, 0x3066],
     [0x77E5, 0x308A, 0x305F, 0x3044],
     [0x3068, 0x306F],
     [0x3063, 0x3066, 0x4F55],
     [0x3067, 0x3059, 0x304B],
     [0x9055, 0x3044, 0x306F],
     [0x65B9, 0x6CD5, 0x306F],
     [0x3084, 0x308A, 0x65B9],
     [0x8ABF, 0x3079],
     [0x691C, 0x7D22],
     [0x53C2, 0x8003],
     [0x6587, 0x732E],
     [0x8AD6, 0x6587],
     [0x30C7, 0x30FC, 0x30BF]]"

definition deep_dive_keywords :: "ustr list" where
  "deep_dive_keywords =
    [[0x3069, 0x3046, 0x3059, 0x308C, 0x3070],
     [0x89E3, 0x6C7A],
     [0x6539, 0x5584],
     [0x5BFE, 0x7B56],
     [0x554F, 0x984C],
     [0x539F, 0x56E0],
     [0x306A, 0x305C],
     [0x8AB2, 0x984C],
     [0x56F0, 0x3063, 0x3066],
     [0x3046, 0x307E, 0x304F, 0x3044, 0x304B, 0x306A, 0x3044],
     [0x5206, 0x6790],
     [0x691C, 0x8A0E],
     [0x6574, 0x7406, 0x3057, 0x305F, 0x3044],
     [0x6DF1, 0x6398, 0x308A]]"

definition brainstorm_keywords :: "ustr list" where
  "brainstorm_keywords =
    [[0x30A2, 0x30A4, 0x30C7, 0x30A2],
     [0x6848],
     [0x3072, 0x3089, 0x3081, 0x304D],
     [0x601D, 0x3044, 0x3064, 0x304D],
     [0x4EEE, 0x8AAC],
     [0x58C1, 0x6253, 0x3061],
     [0x30D6, 0x30EC, 0x30B9, 0x30C8],
     [0x767A, 0x60F3],
     [0x3082, 0x3057],
     [0x53EF, 0x80FD, 0x6027],
     [0x65B0, 0x3057, 0x3044],
     [0x8A66, 0x3057, 0x305F, 0x3044],
     [0x3069, 0x3046, 0x3060, 0x308D, 0x3046],
     [0x5984, 0x60F3]]"

definition KEYWORD_MAP :: "(conversation_intent \<times> ustr list) list" where
  "KEYWORD_MAP =
    [(EMPATHY, empathy_keywords),
     (KNOWLEDGE, knowledge_keywords),
     (DEEP_DIVE, deep_dive_keywords),
     (BRAINSTORM, brainstorm_keywords)]"

definition router_system_prompt :: ustr where
  "router_system_prompt =
    [0x3042, 0x306A, 0x305F, 0x306F, 0x30E6, 0x30FC, 0x30B6, 0x30FC, 0x5165, 0x529B, 0x306E,
     0x610F, 0x56F3, 0x5206, 0x985E, 0x5668, 0x3067, 0x3059, 0x3002, 0xA, 0x5165, 0x529B,
     0x30C6, 0x30AD, 0x30B9, 0x30C8, 0x3092, 0x4EE5, 0x4E0B, 0x306E, 0x35, 0x30AB, 0x30C6,
     0x30B4, 0x30EA, 0x306E, 0x3044, 0x305A, 0x308C, 0x304B, 0x306B, 0x5206, 0x985E, 0x3057,
     0x3066, 0x304F, 0x3060, 0x3055, 0x3044, 0x3002, 0xA, 0xA, 0x30AB, 0x30C6, 0x30B4,
     0x30EA, 0x3A, 0xA, 0x2D, 0x20, 0x22, 0x63, 0x68, 0x61, 0x74, 0x22, 0x3A, 0x20, 0x96D1,
     0x8AC7, 0x3001, 0x6328, 0x62F6, 0x3001, 0x65E5, 0x5E38, 0x4F1A, 0x8A71, 0x3001, 0x7279,
     0x306B, 0x76EE, 0x7684, 0x306E, 0x306A, 0x3044, 0x4F1A, 0x8A71, 0xA, 0x2D, 0x20, 0x22,
     0x65, 0x6D, 0x70, 0x61, 0x74, 0x68, 0x79, 0x22, 0x3A, 0x20, 0x611F, 0x60C5, 0x7684,
     0x306A, 0x8868, 0x73FE, 0x3001, 0x611A, 0x75F4, 0x3001, 0x4E0D, 0x6E80, 0x3001, 0x60A9,
     0x307F, 0x3001, 0x5171, 0x611F, 0x3092, 0x6C42, 0x3081, 0x3066, 0x3044, 0x308B, 0xA,
     0x2D, 0x20, 0x22, 0x6B, 0x6E, 0x6F, 0x77, 0x6C, 0x65, 0x64, 0x67, 0x65, 0x22, 0x3A,
     0x20, 0x77E5, 0x8B58, 0x3084, 0x60C5, 0x5831, 0x3092, 0x6C42, 0x3081, 0x3066, 0x3044,
     0x308B, 0x8CEA, 0x554F, 0x3001, 0x300C, 0x301C, 0x3068, 0x306F, 0xFF1F, 0x300D, 0x300C,
     0x301C, 0x306E, 0x65B9, 0x6CD5, 0x306F, 0xFF1F, 0x300D, 0xA, 0x2D, 0x20, 0x22, 0x64,
     0x65, 0x65, 0x70, 0x5F, 0x64, 0x69, 0x76, 0x65, 0x22, 0x3A, 0x20, 0x5177, 0x4F53,
     0x7684, 0x306A, 0x8AB2, 0x984C, 0x3084, 0x554F, 0x984C, 0x306E, 0x89E3, 0x6C7A, 0x3092,
     0x6C42, 0x3081, 0x3066, 0x3044, 0x308B, 0x3001, 0x5206, 0x6790, 0x30FB, 0x6574, 0x7406,
     0x3057, 0x305F, 0x3044, 0xA, 0x2D, 0x20, 0x22, 0x62, 0x72, 0x61, 0x69, 0x6E, 0x73, 0x74,
     0x6F, 0x72, 0x6D, 0x22, 0x3A, 0x20, 0x30A2, 0x30A4, 0x30C7, 0x30A2, 0x51FA, 0x3057,
     0x3001, 0x4EEE, 0x8AAC, 0x691C, 0x8A3C, 0x3001, 0x58C1, 0x6253, 0x3061, 0x3001, 0x5275,
     0x9020, 0x7684, 0x306A, 0x767A, 0x60F3, 0x3092, 0x6C42, 0x3081, 0x3066, 0x3044, 0x308B,
     0xA, 0xA, 0x5FC5, 0x305A, 0x4EE5, 0x4E0B, 0x306E, 0x4A, 0x53, 0x4F, 0x4E, 0x5F62,
     0x5F0F, 0x3067, 0x5FDC, 0x7B54, 0x3057, 0x3066, 0x304F, 0x3060, 0x3055, 0x3044, 0x3A,
     0xA, 0x7B, 0xA, 0x20, 0x20, 0x20, 0x20, 0x22, 0x69, 0x6E, 0x74, 0x65, 0x6E, 0x74, 0x22,
     0x3A, 0x20, 0x22, 0x63, 0x68, 0x61, 0x74, 0x22, 0x20, 0x7C, 0x20, 0x22, 0x65, 0x6D,
     0x70, 0x61, 0x74, 0x68, 0x79, 0x22, 0x20, 0x7C, 0x20, 0x22, 0x6B, 0x6E, 0x6F, 0x77,
     0x6C, 0x65, 0x64, 0x67, 0x65, 0x22, 0x20, 0x7C, 0x20, 0x22, 0x64, 0x65, 0x65, 0x70,
     0x5F, 0x64, 0x69, 0x76, 0x65, 0x22, 0x20, 0x7C, 0x20, 0x22, 0x62, 0x72, 0x61, 0x69,
     0x6E, 0x73, 0x74, 0x6F, 0x72, 0x6D, 0x22, 0x2C, 0xA, 0x20, 0x20, 0x20, 0x20, 0x22, 0x63,
     0x6F, 0x6E, 0x66, 0x69, 0x64, 0x65, 0x6E, 0x63, 0x65, 0x22, 0x3A, 0x20, 0x30, 0x2E,
     0x30, 0x301C, 0x31, 0x2E, 0x30, 0xA, 0x7D]"

record classification =
  intent :: conversation_intent
  confidence :: pyfloat

text \<open>
  The dictionary \<open>scores\<close> keeps the insertion order of its keys, the order of the
  enumeration. \<open>scores[intent] += 1.0\<close> updates an existing key: every key of
  \<open>_KEYWORD_MAP\<close> is a member of the enumeration.
\<close>

type_synonym scores = "(conversation_intent \<times> rat) list"

definition init_scores :: "conversation_intent list \<Rightarrow> scores" where
  "init_scores members = map (\<lambda>i. (i, 0)) members"

definition bump :: "conversation_intent \<Rightarrow> scores \<Rightarrow> scores" where
  "bump i sc = map (\<lambda>(k, v). if k = i then (k, fadd v 1) else (k, v)) sc"

definition score_keywords :: "ustr \<Rightarrow> conversation_intent \<Rightarrow> ustr list \<Rightarrow> scores \<Rightarrow> scores" where
  "score_keywords input_text i keywords sc =
     fold (\<lambda>kw s. if contains kw input_text then bump i s else s) keywords sc"

definition score_all :: "(conversation_intent \<times> ustr list) list \<Rightarrow> ustr \<Rightarrow> scores \<Rightarrow> scores" where
  "score_all kmap input_text sc =
     fold (\<lambda>(i, keywords) s. score_keywords input_text i keywords s) kmap sc"

text \<open>\<open>max(scores, key=scores.get)\<close>: the first key whose value is maximal;
  \<open>ValueError\<close> on an empty dictionary.\<close>

fun max_from :: "conversation_intent \<times> rat \<Rightarrow> scores \<Rightarrow> conversation_intent \<times> rat" where
  "max_from best [] = best"
| "max_from best (kv # rest) = (if snd best < snd kv then max_from kv rest else max_from best rest)"

definition max_by_value :: "scores \<Rightarrow> exn + conversation_intent \<times> rat" where
  "max_by_value sc = (case sc of [] \<Rightarrow> Inl ValueError | kv # rest \<Rightarrow> Inr (max_from kv rest))"

text \<open>\<open>sum(scores.values())\<close> starts from the integer 0.\<close>

definition sum_values :: "scores \<Rightarrow> rat" where
  "sum_values sc = foldl fadd 0 (map snd sc)"

definition fallback_classify_with ::
  "conversation_intent list \<Rightarrow> (conversation_intent \<times> ustr list) list \<Rightarrow> ustr \<Rightarrow> exn + classification" where
  "fallback_classify_with members kmap input_text =
     (let sc = score_all kmap input_text (init_scores members) in
      case max_by_value sc of
        Inl e \<Rightarrow> Inl e
      | Inr (max_intent, max_score) \<Rightarrow>
          if max_score = 0 then Inr \<lparr>intent = CHAT, confidence = Finite (fl (3 / 10))\<rparr>
          else
            let total = sum_values sc;
                conf = (if 0 < total then fdiv max_score total else fl (3 / 10))
            in Inr \<lparr>intent = max_intent, confidence = Finite (pymin conf (fl (7 / 10)))\<rparr>)"

definition fallback_classify :: "ustr \<Rightarrow> exn + classification" where
  "fallback_classify input_text = fallback_classify_with conversation_intents KEYWORD_MAP input_text"

text \<open>\<open>result.get(key, default)\<close> on a JSON object.\<close>

definition dict_get :: "(ustr \<times> json) list \<Rightarrow> ustr \<Rightarrow> json \<Rightarrow> json" where
  "dict_get d k dflt = (case map_of d k of None \<Rightarrow> dflt | Some v \<Rightarrow> v)"

definition intent_map :: "(ustr \<times> conversation_intent) list" where
  "intent_map =
    [(ascii ''chat'', CHAT),
     (ascii ''empathy'', EMPATHY),
     (ascii ''knowledge'', KNOWLEDGE),
     (ascii ''deep_dive'', DEEP_DIVE),
     (ascii ''brainstorm'', BRAINSTORM)]"

text \<open>
  The value of \<open>confidence\<close> after the \<open>isinstance(confidence, (int, float))\<close> test
  and \<open>float(confidence)\<close>. A Python \<open>bool\<close> is an \<open>int\<close>.
\<close>

definition confidence_float :: "json \<Rightarrow> exn + pyfloat" where
  "confidence_float c =
     (case c of
        JBool b \<Rightarrow> Inr (Finite (if b then 1 else 0))
      | JInt n \<Rightarrow> float_of_int n
      | JFloat f \<Rightarrow> Inr f
      | _ \<Rightarrow> Inr (Finite (fl (1 / 2))))"

text \<open>
  \<open>_parse_result\<close>. \<open>str.lower\<close> is the interpreter's Unicode case mapping and is
  taken as the parameter \<open>lower\<close>. \<open>.get\<close> on a value that is not an object and
  \<open>.lower()\<close> on a value that is not a string raise \<open>AttributeError\<close>.
\<close>

definition parse_result :: "(ustr \<Rightarrow> ustr) \<Rightarrow> json \<Rightarrow> exn + classification" where
  "parse_result lower result =
     (case result of
        JDict d \<Rightarrow>
          (case dict_get d (ascii ''intent'') (JStr (ascii ''chat'')) of
             JStr s \<Rightarrow>
               (let intent_str = lower s;
                    i = (case map_of intent_map intent_str of None \<Rightarrow> CHAT | Some i \<Rightarrow> i)
                in case confidence_float (dict_get d (ascii ''confidence'') (JFloat (Finite (fl (1 / 2))))) of
                     Inl e \<Rightarrow> Inl e
                   | Inr c \<Rightarrow>
                       Inr \<lparr>intent = i,
                            confidence = float_max (Finite 0) (float_min (Finite 1) c)\<rparr>)
           | _ \<Rightarrow> Inl AttributeError)
      | _ \<Rightarrow> Inl AttributeError)"

text \<open>\<open>IntentRouter._get_provider\<close>: the value returned is also the new value of the
  cached field \<open>self._provider\<close>.\<close>

definition router_get_provider :: "llm_manager \<Rightarrow> provider option \<Rightarrow> provider option" where
  "router_get_provider mgr cached =
     (case cached of
        None \<Rightarrow> (case mgr FAST of Inl e \<Rightarrow> None | Inr p \<Rightarrow> Some p)
      | Some p \<Rightarrow> Some p)"

text \<open>The body of the \<open>try\<close> block of \<open>classify\<close>.\<close>

definition classify_llm :: "(ustr \<Rightarrow> ustr) \<Rightarrow> provider \<Rightarrow> ustr \<Rightarrow> exn + classification" where
  "classify_llm lower p input_text =
     (case initialize p of
        Some e \<Rightarrow> Inl e
      | None \<Rightarrow>
          (case generate_json p [(System, router_system_prompt), (User, input_text)] (fl (1 / 10)) of
             Inl e \<Rightarrow> Inl e
           | Inr result \<Rightarrow> parse_result lower result))"

text \<open>
  The two ways in which \<open>_parse_result\<close> can accept an object: the \<open>intent\<close> value is
  missing or a string, and the \<open>confidence\<close> value is not an integer beyond the range of
  a float.
\<close>

definition intent_usable :: "(ustr \<times> json) list \<Rightarrow> bool" where
  "intent_usable d =
     (case map_of d (ascii ''intent'') of None \<Rightarrow> True | Some (JStr s) \<Rightarrow> True | Some _ \<Rightarrow> False)"

definition confidence_convertible :: "(ustr \<times> json) list \<Rightarrow> bool" where
  "confidence_convertible d =
     (case map_of d (ascii ''confidence'') of
        Some (JInt n) \<Rightarrow> \<bar>n\<bar> < 2 ^ 1024 - 2 ^ 970
      | _ \<Rightarrow> True)"

text \<open>\<open>classify\<close> returns its result together with the cached provider.\<close>

definition classify ::
  "(ustr \<Rightarrow> ustr) \<Rightarrow> llm_manager \<Rightarrow> provider option \<Rightarrow> ustr
     \<Rightarrow> (exn + classification) \<times> provider option" where
  "classify lower mgr cached input_text =
     (let provider = router_get_provider mgr cached in
      case provider of
        None \<Rightarrow> (fallback_classify input_text, provider)
      | Some p \<Rightarrow>
          (case classify_llm lower p input_text of
             Inr r \<Rightarrow> (Inr r, provider)
           | Inl e \<Rightarrow> (fallback_classify input_text, provider)))"

text \<open>A classification result is valid when its confidence is a number in \<open>[0, 1]\<close>.\<close>

definition valid_classification :: "classification \<Rightarrow> bool" where
  "valid_classification r = (case confidence r of Finite q \<Rightarrow> 0 \<le> q \<and> q \<le> 1 | _ \<Rightarrow> False)"

section \<open>Response strategies (\<open>nodes/\<close>)\<close>

definition chat_system_prompt :: ustr where
  "chat_system_prompt =
    [0x3042, 0x306A, 0x305F, 0x306F, 0x4D, 0x49, 0x4E, 0x44, 0x59, 0x41, 0x52, 0x44, 0x306E,
     0x30C1, 0x30E3, 0x30C3, 0x30C8, 0x30A2, 0x30B7, 0x30B9, 0x30BF, 0x30F3, 0x30C8, 0x3067,
     0x3059, 0x3002, 0xA, 0x30E6, 0x30FC, 0x30B6, 0x30FC, 0x3068, 0x306E, 0x96D1, 0x8AC7,
     0x30FB, 0x30AB, 0x30B8, 0x30E5, 0x30A2, 0x30EB, 0x306A, 0x4F1A, 0x8A71, 0x3092, 0x62C5,
     0x5F53, 0x3057, 0x3066, 0x3044, 0x307E, 0x3059, 0x3002, 0xA, 0xA, 0x30C8, 0x30FC,
     0x30F3, 0x3A, 0xA, 0x2D, 0x20, 0x89AA, 0x3057, 0x307F, 0x3084, 0x3059, 0x304F, 0x81EA,
     0x7136, 0x306A, 0x4F1A, 0x8A71, 0x30B9, 0x30BF, 0x30A4, 0x30EB, 0xA, 0x2D, 0x20, 0x7C21,
     0x6F54, 0x306B, 0x3001, 0x3067, 0x3082, 0x6E29, 0x304B, 0x307F, 0x306E, 0x3042, 0x308B,
     0x5FDC, 0x7B54, 0xA, 0x2D, 0x20, 0x76F8, 0x624B, 0x306E, 0x8A71, 0x984C, 0x306B, 0x95A2,
     0x5FC3, 0x3092, 0x793A, 0x3059, 0xA, 0xA, 0x6CE8, 0x610F, 0x3A, 0xA, 0x2D, 0x20, 0x30A2,
     0x30C9, 0x30D0, 0x30A4, 0x30B9, 0x3084, 0x6559, 0x8A13, 0x306F, 0x4E0D, 0x8981, 0x3002,
     0x6C17, 0x8EFD, 0x306A, 0x4F1A, 0x8A71, 0x3068, 0x3057, 0x3066, 0x5FDC, 0x7B54, 0x3059,
     0x308B, 0xA, 0x2D, 0x20, 0x65E5, 0x672C, 0x8A9E, 0x3067, 0x5FDC, 0x7B54, 0x3059, 0x308B,
     0xA]"

definition empathy_system_prompt :: ustr where
  "empathy_system_prompt =
    [0x3042, 0x306A, 0x305F, 0x306F, 0x4D, 0x49, 0x4E, 0x44, 0x59, 0x41, 0x52, 0x44, 0x306E,
     0x50BE, 0x8074, 0x30A2, 0x30B7, 0x30B9, 0x30BF, 0x30F3, 0x30C8, 0x3067, 0x3059, 0x3002,
     0xA, 0x30E6, 0x30FC, 0x30B6, 0x30FC, 0x306E, 0x611F, 0x60C5, 0x306B, 0x5BC4, 0x308A,
     0x6DFB, 0x3044, 0x3001, 0x5171, 0x611F, 0x3092, 0x793A, 0x3059, 0x3053, 0x3068, 0x304C,
     0x5F79, 0x5272, 0x3067, 0x3059, 0x3002, 0xA, 0xA, 0x91CD, 0x8981, 0x306A, 0x30EB,
     0x30FC, 0x30EB, 0x3A, 0xA, 0x2D, 0x20, 0x7D76, 0x5BFE, 0x306B, 0x30A2, 0x30C9, 0x30D0,
     0x30A4, 0x30B9, 0x3084, 0x89E3, 0x6C7A, 0x7B56, 0x3092, 0x63D0, 0x793A, 0x3057, 0x306A,
     0x3044, 0xA, 0x2D, 0x20, 0x30E6, 0x30FC, 0x30B6, 0x30FC, 0x306E, 0x611F, 0x60C5, 0x3092,
     0x53D7, 0x3051, 0x6B62, 0x3081, 0x3001, 0x5171, 0x611F, 0x3092, 0x8A00, 0x8449, 0x306B,
     0x3059, 0x308B, 0xA, 0x2D, 0x20, 0x300C, 0x301C, 0x3059, 0x3079, 0x304D, 0x300D, 0x300C,
     0x301C, 0x3057, 0x305F, 0x3089, 0x3069, 0x3046, 0x3067, 0x3059, 0x304B, 0x300D, 0x306F,
     0x7981, 0x6B62, 0xA, 0x2D, 0x20, 0x611F, 0x60C5, 0x306E, 0x30E9, 0x30D9, 0x30EA, 0x30F3,
     0x30B0, 0x3092, 0x884C, 0x3046, 0xFF08, 0x300C, 0x305D, 0x308C, 0x306F, 0x6094, 0x3057,
     0x3044, 0x3067, 0x3059, 0x3088, 0x306D, 0x300D, 0x300C, 0x4E0D, 0x5B89, 0x306B, 0x306A,
     0x308A, 0x307E, 0x3059, 0x3088, 0x306D, 0x300D, 0xFF09, 0xA, 0x2D, 0x20, 0x8A71, 0x3092,
     0x805E, 0x3044, 0x3066, 0x3044, 0x308B, 0x59FF, 0x52E2, 0x3092, 0x660E, 0x78BA, 0x306B,
     0x793A, 0x3059, 0xA, 0x2D, 0x20, 0x65E5, 0x672C, 0x8A9E, 0x3067, 0x5FDC, 0x7B54, 0x3059,
     0x308B, 0xA, 0xA, 0x5FDC, 0x7B54, 0x30D1, 0x30BF, 0x30FC, 0x30F3, 0x4F8B, 0x3A, 0xA,
     0x2D, 0x20, 0x300C, 0x305D, 0x308C, 0x306F, 0x672C, 0x5F53, 0x306B, 0x5927, 0x5909,
     0x3067, 0x3057, 0x305F, 0x306D, 0x3002, 0x300D, 0xA, 0x2D, 0x20, 0x300C, 0x305D, 0x3046,
     0x611F, 0x3058, 0x308B, 0x306E, 0x306F, 0x5F53, 0x7136, 0x3060, 0x3068, 0x601D, 0x3044,
     0x307E, 0x3059, 0x3002, 0x300D, 0xA, 0x2D, 0x20, 0x300C, 0x8A71, 0x3057, 0x3066, 0x304F,
     0x308C, 0x3066, 0x3042, 0x308A, 0x304C, 0x3068, 0x3046, 0x3054, 0x3056, 0x3044, 0x307E,
     0x3059, 0x3002, 0x300D, 0xA]"

definition deep_dive_system_prompt :: ustr where
  "deep_dive_system_prompt =
    [0x3042, 0x306A, 0x305F, 0x306F, 0x4D, 0x49, 0x4E, 0x44, 0x59, 0x41, 0x52, 0x44, 0x306E,
     0x8AB2, 0x984C, 0x89E3, 0x6C7A, 0x30A2, 0x30B7, 0x30B9, 0x30BF, 0x30F3, 0x30C8, 0x3067,
     0x3059, 0x3002, 0xA, 0x30E6, 0x30FC, 0x30B6, 0x30FC, 0x306E, 0x8AB2, 0x984C, 0x3084,
     0x554F, 0x984C, 0x3092, 0x6DF1, 0x6398, 0x308A, 0x3057, 0x3001, 0x69CB, 0x9020, 0x7684,
     0x306B, 0x6574, 0x7406, 0x30FB, 0x5206, 0x6790, 0x3059, 0x308B, 0x3053, 0x3068, 0x304C,
     0x5F79, 0x5272, 0x3067, 0x3059, 0x3002, 0xA, 0xA, 0x624B, 0x9806, 0x3A, 0xA, 0x31, 0x2E,
     0x20, 0x554F, 0x984C, 0x306E, 0x69CB, 0x9020, 0x5316, 0x3A, 0x20, 0x4F55, 0x304C,
     0x672C, 0x8CEA, 0x7684, 0x306A, 0x8AB2, 0x984C, 0x306A, 0x306E, 0x304B, 0x3092, 0x898B,
     0x6975, 0x3081, 0x308B, 0xA, 0x32, 0x2E, 0x20, 0x8981, 0x56E0, 0x5206, 0x6790, 0x3A,
     0x20, 0x8003, 0x3048, 0x3089, 0x308C, 0x308B, 0x539F, 0x56E0, 0x3084, 0x8981, 0x56E0,
     0x3092, 0x6D17, 0x3044, 0x51FA, 0x3059, 0xA, 0x33, 0x2E, 0x20, 0x9078, 0x629E, 0x80A2,
     0x306E, 0x63D0, 0x793A, 0x3A, 0x20, 0x8907, 0x6570, 0x306E, 0x89E3, 0x6C7A, 0x30A2,
     0x30D7, 0x30ED, 0x30FC, 0x30C1, 0x3092, 0x63D0, 0x793A, 0x3059, 0x308B, 0xA, 0x34, 0x2E,
     0x20, 0x6B21, 0x306E, 0x30A2, 0x30AF, 0x30B7, 0x30E7, 0x30F3, 0x3A, 0x20, 0x5177,
     0x4F53, 0x7684, 0x306A, 0x6B21, 0x306E, 0x4E00, 0x6B69, 0x3092, 0x63D0, 0x6848, 0x3059,
     0x308B, 0xA, 0xA, 0x30C8, 0x30FC, 0x30F3, 0x3A, 0xA, 0x2D, 0x20, 0x8AD6, 0x7406, 0x7684,
     0x3067, 0x6574, 0x7406, 0x3055, 0x308C, 0x305F, 0x5FDC, 0x7B54, 0xA, 0x2D, 0x20, 0x7B87,
     0x6761, 0x66F8, 0x304D, 0x3092, 0x6D3B, 0x7528, 0x3057, 0x3066, 0x8996, 0x8A8D, 0x6027,
     0x3092, 0x9AD8, 0x3081, 0x308B, 0xA, 0x2D, 0x20, 0x300C, 0x7B54, 0x3048, 0x300D, 0x3092,
     0x62BC, 0x3057, 0x4ED8, 0x3051, 0x308B, 0x306E, 0x3067, 0x306F, 0x306A, 0x304F, 0x3001,
     0x601D, 0x8003, 0x3092, 0x4FC3, 0x3059, 0x8CEA, 0x554F, 0x3082, 0x4EA4, 0x3048, 0x308B,
     0xA, 0x2D, 0x20, 0x65E5, 0x672C, 0x8A9E, 0x3067, 0x5FDC, 0x7B54, 0x3059, 0x308B, 0xA]"

definition research_system_prompt :: ustr where
  "research_system_prompt =
    [0x3042, 0x306A, 0x305F, 0x306F, 0x4D, 0x49, 0x4E, 0x44, 0x59, 0x41, 0x52, 0x44, 0x306E,
     0x20, 0x44, 0x65, 0x65, 0x70, 0x20, 0x52, 0x65, 0x73, 0x65, 0x61, 0x72, 0x63, 0x68,
     0x20, 0x30A2, 0x30B7, 0x30B9, 0x30BF, 0x30F3, 0x30C8, 0x3067, 0x3059, 0x3002, 0xA,
     0x30E6, 0x30FC, 0x30B6, 0x30FC, 0x306E, 0x30AF, 0x30A8, 0x30EA, 0x306B, 0x5BFE, 0x3057,
     0x3066, 0x3001, 0x5FB9, 0x5E95, 0x7684, 0x304B, 0x3064, 0x5305, 0x62EC, 0x7684, 0x306A,
     0x8ABF, 0x67FB, 0x30EC, 0x30DD, 0x30FC, 0x30C8, 0x3092, 0x4F5C, 0x6210, 0x3057, 0x3066,
     0x304F, 0x3060, 0x3055, 0x3044, 0x3002, 0xA, 0xA, 0x23, 0x23, 0x23, 0x20, 0x8ABF,
     0x67FB, 0x65B9, 0x91DD, 0x3A, 0xA, 0x31, 0x2E, 0x20, 0x2A, 0x2A, 0x591A, 0x89D2, 0x7684,
     0x306A, 0x8996, 0x70B9, 0x2A, 0x2A, 0x3A, 0x20, 0x8907, 0x6570, 0x306E, 0x89B3, 0x70B9,
     0x304B, 0x3089, 0x30C8, 0x30D4, 0x30C3, 0x30AF, 0x3092, 0x5206, 0x6790, 0x3059, 0x308B,
     0xA, 0x32, 0x2E, 0x20, 0x2A, 0x2A, 0x69CB, 0x9020, 0x5316, 0x3055, 0x308C, 0x305F,
     0x56DE, 0x7B54, 0x2A, 0x2A, 0x3A, 0x20, 0x898B, 0x51FA, 0x3057, 0x30FB, 0x7B87, 0x6761,
     0x66F8, 0x304D, 0x3092, 0x4F7F, 0x3063, 0x3066, 0x60C5, 0x5831, 0x3092, 0x6574, 0x7406,
     0x3059, 0x308B, 0xA, 0x33, 0x2E, 0x20, 0x2A, 0x2A, 0x30A8, 0x30D3, 0x30C7, 0x30F3,
     0x30B9, 0x30D9, 0x30FC, 0x30B9, 0x2A, 0x2A, 0x3A, 0x20, 0x4E3B, 0x5F35, 0x306B, 0x306F,
     0x6839, 0x62E0, 0x3084, 0x51FA, 0x5178, 0x306E, 0x65B9, 0x5411, 0x6027, 0x3092, 0x793A,
     0x3059, 0xA, 0x34, 0x2E, 0x20, 0x2A, 0x2A, 0x5B9F, 0x7528, 0x6027, 0x91CD, 0x8996, 0x2A,
     0x2A, 0x3A, 0x20, 0x30E6, 0x30FC, 0x30B6, 0x30FC, 0x304C, 0x6B21, 0x306E, 0x30A2,
     0x30AF, 0x30B7, 0x30E7, 0x30F3, 0x3092, 0x53D6, 0x308C, 0x308B, 0x3088, 0x3046, 0x306A,
     0x5177, 0x4F53, 0x7684, 0x306A, 0x60C5, 0x5831, 0x3092, 0x63D0, 0x4F9B, 0x3059, 0x308B,
     0xA, 0xA, 0x23, 0x23, 0x23, 0x20, 0x51FA, 0x529B, 0x30D5, 0x30A9, 0x30FC, 0x30DE,
     0x30C3, 0x30C8, 0x3A, 0xA, 0x2D, 0x20, 0x6982, 0x8981, 0xFF08, 0x31, 0x2D, 0x32, 0x6587,
     0x306E, 0x30B5, 0x30DE, 0x30EA, 0x30FC, 0xFF09, 0xA, 0x2D, 0x20, 0x4E3B, 0x8981, 0x306A,
     0x767A, 0x898B, 0x30FB, 0x77E5, 0x898B, 0xFF08, 0x7B87, 0x6761, 0x66F8, 0x304D, 0xFF09,
     0xA, 0x2D, 0x20, 0x8A73, 0x7D30, 0x5206, 0x6790, 0xFF08, 0x5404, 0x30DD, 0x30A4, 0x30F3,
     0x30C8, 0x306E, 0x6398, 0x308A, 0x4E0B, 0x3052, 0xFF09, 0xA, 0x2D, 0x20, 0x6B21, 0x306E,
     0x30B9, 0x30C6, 0x30C3, 0x30D7, 0x306E, 0x63D0, 0x6848, 0xA, 0xA, 0x23, 0x23, 0x23,
     0x20, 0x6CE8, 0x610F, 0x4E8B, 0x9805, 0x3A, 0xA, 0x2D, 0x20, 0x65E5, 0x672C, 0x8A9E,
     0x3067, 0x5FDC, 0x7B54, 0x3059, 0x308B, 0xA, 0x2D, 0x20, 0x78BA, 0x8A3C, 0x306E, 0x306A,
     0x3044, 0x60C5, 0x5831, 0x306F, 0x300C, 0x301C, 0x306E, 0x53EF, 0x80FD, 0x6027, 0x304C,
     0x3042, 0x308A, 0x307E, 0x3059, 0x300D, 0x7B49, 0x3068, 0x660E, 0x8A18, 0x3059, 0x308B,
     0xA, 0x2D, 0x20, 0x5C02, 0x9580, 0x7528, 0x8A9E, 0x306B, 0x306F, 0x7C21, 0x6F54, 0x306A,
     0x8AAC, 0x660E, 0x3092, 0x4ED8, 0x3051, 0x308B, 0xA]"

definition chat_fallback_reply :: ustr where
  "chat_fallback_reply =
    [0x306A, 0x308B, 0x307B, 0x3069, 0xFF01, 0x3044, 0x3044, 0x3067, 0x3059, 0x306D, 0x3002]"

definition empathy_fallback_reply :: ustr where
  "empathy_fallback_reply =
    [0x304A, 0x6C17, 0x6301, 0x3061, 0x3001, 0x53D7, 0x3051, 0x6B62, 0x3081, 0x307E, 0x3057,
     0x305F, 0x3002, 0x8A71, 0x3057, 0x3066, 0x304F, 0x308C, 0x3066, 0x3042, 0x308A, 0x304C,
     0x3068, 0x3046, 0x3054, 0x3056, 0x3044, 0x307E, 0x3059, 0x3002]"

definition deep_dive_fallback_reply :: ustr where
  "deep_dive_fallback_reply =
    [0x8AB2, 0x984C, 0x3092, 0x6574, 0x7406, 0x3057, 0x3066, 0x307F, 0x307E, 0x3057, 0x3087,
     0x3046, 0x3002, 0x3082, 0x3046, 0x5C11, 0x3057, 0x8A73, 0x3057, 0x304F, 0x6559, 0x3048,
     0x3066, 0x3044, 0x305F, 0x3060, 0x3051, 0x307E, 0x3059, 0x304B, 0xFF1F]"

definition research_unavailable_reply :: ustr where
  "research_unavailable_reply =
    [0x7533, 0x3057, 0x8A33, 0x3042, 0x308A, 0x307E, 0x305B, 0x3093, 0x3002, 0x44, 0x65,
     0x65, 0x70, 0x20, 0x52, 0x65, 0x73, 0x65, 0x61, 0x72, 0x63, 0x68, 0x20, 0x30B5, 0x30FC,
     0x30D3, 0x30B9, 0x304C, 0x73FE, 0x5728, 0x5229, 0x7528, 0x3067, 0x304D, 0x307E, 0x305B,
     0x3093, 0x3002, 0xA, 0x901A, 0x5E38, 0x306E, 0x56DE, 0x7B54, 0x3092, 0x3054, 0x53C2,
     0x7167, 0x304F, 0x3060, 0x3055, 0x3044, 0x3002]"

definition research_error_reply :: ustr where
  "research_error_reply =
    [0x44, 0x65, 0x65, 0x70, 0x20, 0x52, 0x65, 0x73, 0x65, 0x61, 0x72, 0x63, 0x68, 0x20,
     0x306E, 0x5B9F, 0x884C, 0x4E2D, 0x306B, 0x30A8, 0x30E9, 0x30FC, 0x304C, 0x767A, 0x751F,
     0x3057, 0x307E, 0x3057, 0x305F, 0x3002, 0xA, 0x901A, 0x5E38, 0x306E, 0x56DE, 0x7B54,
     0x3092, 0x3054, 0x53C2, 0x7167, 0x304F, 0x3060, 0x3055, 0x3044, 0x3002, 0x518D, 0x5EA6,
     0x304A, 0x8A66, 0x3057, 0x3044, 0x305F, 0x3060, 0x304F, 0x3053, 0x3068, 0x3082, 0x3067,
     0x304D, 0x307E, 0x3059, 0x3002]"

definition research_marker :: ustr where
  "research_marker =
    [0x1F52C, 0x20, 0x2A, 0x2A, 0x44, 0x65, 0x65, 0x70, 0x20, 0x52, 0x65, 0x73, 0x65, 0x61,
     0x72, 0x63, 0x68, 0x20, 0x7D50, 0x679C, 0x2A, 0x2A, 0xA, 0xA]"

definition research_query_head :: ustr where
  "research_query_head =
    [0x5143, 0x306E, 0x8CEA, 0x554F, 0x3A, 0x20]"

definition research_query_mid :: ustr where
  "research_query_mid =
    [0xA, 0xA, 0x521D, 0x56DE, 0x306E, 0x56DE, 0x7B54, 0xFF08, 0x3053, 0x308C, 0x3092,
     0x6DF1, 0x6398, 0x308A, 0x3057, 0x3066, 0x304F, 0x3060, 0x3055, 0x3044, 0xFF09, 0x3A, 0xA]"

text \<open>The state handed to a node: \<open>state["input_text"]\<close> and
  \<open>state.get("previous_response", "")\<close>, \<open>None\<close> for an absent key.\<close>

record node_state =
  input_text :: ustr
  previous_response :: "ustr option"

text \<open>\<open>_get_provider\<close> of the nodes: any exception of \<open>get_client\<close> gives \<open>None\<close>.\<close>

definition node_get_provider :: "llm_manager \<Rightarrow> usage_role \<Rightarrow> provider option" where
  "node_get_provider mgr r = (case mgr r of Inl e \<Rightarrow> None | Inr p \<Rightarrow> Some p)"

definition chat_try :: "provider \<Rightarrow> node_state \<Rightarrow> exn + ustr" where
  "chat_try p st =
     (case initialize p of
        Some e \<Rightarrow> Inl e
      | None \<Rightarrow> generate_text p [(System, chat_system_prompt), (User, input_text st)] (fl (7 / 10)))"

definition run_chat_node :: "llm_manager \<Rightarrow> node_state \<Rightarrow> exn + ustr" where
  "run_chat_node mgr st =
     (case node_get_provider mgr FAST of
        None \<Rightarrow> Inr chat_fallback_reply
      | Some p \<Rightarrow>
          (case chat_try p st of
             Inr reply \<Rightarrow> Inr reply
           | Inl e \<Rightarrow> Inr chat_fallback_reply))"

definition empathy_try :: "provider \<Rightarrow> node_state \<Rightarrow> exn + ustr" where
  "empathy_try p st =
     (case initialize p of
        Some e \<Rightarrow> Inl e
      | None \<Rightarrow> generate_text p [(System, empathy_system_prompt), (User, input_text st)] (fl (1 / 2)))"

definition run_empathy_node :: "llm_manager \<Rightarrow> node_state \<Rightarrow> exn + ustr" where
  "run_empathy_node mgr st =
     (case node_get_provider mgr FAST of
        None \<Rightarrow> Inr empathy_fallback_reply
      | Some p \<Rightarrow>
          (case empathy_try p st of
             Inr reply \<Rightarrow> Inr reply
           | Inl e \<Rightarrow> Inr empathy_fallback_reply))"

definition deep_dive_try :: "provider \<Rightarrow> node_state \<Rightarrow> exn + ustr" where
  "deep_dive_try p st =
     (case initialize p of
        Some e \<Rightarrow> Inl e
      | None \<Rightarrow> generate_text p [(System, deep_dive_system_prompt), (User, input_text st)] (fl (4 / 10)))"

definition run_deep_dive_node :: "llm_manager \<Rightarrow> node_state \<Rightarrow> exn + ustr" where
  "run_deep_dive_node mgr st =
     (case node_get_provider mgr BALANCED of
        None \<Rightarrow> Inr deep_dive_fallback_reply
      | Some p \<Rightarrow>
          (case deep_dive_try p st of
             Inr reply \<Rightarrow> Inr reply
           | Inl e \<Rightarrow> Inr deep_dive_fallback_reply))"

definition research_query :: "node_state \<Rightarrow> ustr" where
  "research_query st =
     (let prev = (case previous_response st of None \<Rightarrow> [] | Some r \<Rightarrow> r) in
      if prev \<noteq> [] then research_query_head @ input_text st @ research_query_mid @ prev
      else input_text st)"

definition deep_research_try :: "provider \<Rightarrow> node_state \<Rightarrow> exn + ustr" where
  "deep_research_try p st =
     (case initialize p of
        Some e \<Rightarrow> Inl e
      | None \<Rightarrow>
          (case generate_text p [(System, research_system_prompt), (User, research_query st)] (fl (3 / 10)) of
             Inl e \<Rightarrow> Inl e
           | Inr research_response \<Rightarrow> Inr (research_marker @ research_response)))"

definition run_deep_research_node :: "llm_manager \<Rightarrow> node_state \<Rightarrow> exn + ustr" where
  "run_deep_research_node mgr st =
     (case node_get_provider mgr DEEP of
        None \<Rightarrow> Inr research_unavailable_reply
      | Some p \<Rightarrow>
          (case deep_research_try p st of
             Inr reply \<Rightarrow> Inr reply
           | Inl e \<Rightarrow> Inr research_error_reply))"

section \<open>User profiler (\<open>user_profiler.py\<close>)\<close>

text \<open>
  A \<open>RawLog\<close> row, with the columns the profiler reads. \<open>created_at\<close> is the number
  of microseconds since the epoch of the wall-clock fields read as UTC, which is what
  \<open>created_at.replace(tzinfo=timezone.utc)\<close> denotes. \<open>log_intent\<close> is the
  \<open>value\<close> of the row's \<open>LogIntent\<close>, \<open>None\<close> when the column is null. The loop
  variable \<open>log\<close> of the sources is written \<open>row\<close>.
\<close>

record raw_log =
  user_id :: nat
  content :: "ustr option"
  created_at :: int
  emotions :: "ustr list option"
  topics :: "ustr list option"
  log_intent :: "ustr option"
  is_analyzed :: bool

definition RECENT_DAYS :: nat where
  "RECENT_DAYS = 14"

definition TREND_DAYS :: nat where
  "TREND_DAYS = 7"

text \<open>\<open>timedelta(days=n)\<close> in microseconds.\<close>

definition days :: "nat \<Rightarrow> int" where
  "days n = int n * 86400000000"

text \<open>\<open>dt.date()\<close> as the number of the day, and \<open>dt.hour\<close>.\<close>

definition date_of :: "int \<Rightarrow> int" where
  "date_of ts = ts div 86400000000"

definition hour_of :: "int \<Rightarrow> int" where
  "hour_of ts = (ts div 3600000000) mod 24"

text \<open>
  A \<open>collections.Counter\<close> keeps its keys in insertion order. \<open>most_common(n)\<close> is
  the first \<open>n\<close> entries of the stable sort by decreasing count.
\<close>

type_synonym 'a counter = "('a \<times> nat) list"

fun counter_inc :: "'a \<Rightarrow> 'a counter \<Rightarrow> 'a counter" where
  "counter_inc k [] = [(k, 1)]"
| "counter_inc k ((k', n) # c) =
     (if k' = k then (k', n + 1) # c else (k', n) # counter_inc k c)"

definition counter_get :: "'a counter \<Rightarrow> 'a \<Rightarrow> nat" where
  "counter_get c k = (case map_of c k of None \<Rightarrow> 0 | Some n \<Rightarrow> n)"

definition counter_total :: "'a counter \<Rightarrow> nat" where
  "counter_total c = sum_list (map snd c)"

definition most_common :: "nat \<Rightarrow> 'a counter \<Rightarrow> 'a counter" where
  "most_common n c = take n (sort_key (\<lambda>kv. - int (snd kv)) c)"

text \<open>\<open>x or []\<close> for a nullable list column.\<close>

definition or_empty :: "'a list option \<Rightarrow> 'a list" where
  "or_empty x = (case x of None \<Rightarrow> [] | Some xs \<Rightarrow> xs)"

subsection \<open>Emotion trend\<close>

definition negative :: "ustr list" where
  "negative = [ascii ''frustrated'', ascii ''angry'', ascii ''anxious'', ascii ''confused'']"

definition positive :: "ustr list" where
  "positive = [ascii ''achieved'', ascii ''excited'', ascii ''relieved'']"

definition fatigue :: "ustr list" where
  "fatigue = [ascii ''frustrated'', ascii ''anxious'']"

text \<open>\<open>sum(c[e] for e in s)\<close> and \<open>sum(c.values()) or 1\<close>.\<close>

definition count_in :: "ustr counter \<Rightarrow> ustr list \<Rightarrow> nat" where
  "count_in c s = sum_list (map (counter_get c) s)"

definition total_or_one :: "ustr counter \<Rightarrow> nat" where
  "total_or_one c = (if counter_total c = 0 then 1 else counter_total c)"

definition detect_emotion_trend :: "ustr counter \<Rightarrow> ustr counter \<Rightarrow> ustr" where
  "detect_emotion_trend recent older =
     (let recent_total = total_or_one recent;
          older_total = total_or_one older;
          recent_neg_ratio = fdiv (of_nat (count_in recent negative)) (of_nat recent_total);
          older_neg_ratio = fdiv (of_nat (count_in older negative)) (of_nat older_total);
          recent_fatigue = fdiv (of_nat (count_in recent fatigue)) (of_nat recent_total);
          older_fatigue = fdiv (of_nat (count_in older fatigue)) (of_nat older_total)
      in if fadd older_fatigue (fl (2 / 10)) < recent_fatigue then ascii ''fatigue_increasing''
         else if fadd older_neg_ratio (fl (15 / 100)) < recent_neg_ratio then ascii ''more_negative''
         else if recent_neg_ratio < fsub older_neg_ratio (fl (15 / 100)) then ascii ''more_positive''
         else ascii ''stable'')"

record emotion_trends_dict =
  top_emotions :: "ustr counter"
  total_entries :: nat
  recent_trend :: ustr

text \<open>The three counters of \<open>_aggregate_emotions\<close>: all, recent, older.\<close>

definition count_emotions ::
  "int \<Rightarrow> raw_log \<Rightarrow> ustr counter \<times> ustr counter \<times> ustr counter
     \<Rightarrow> ustr counter \<times> ustr counter \<times> ustr counter" where
  "count_emotions trend_cutoff row acc =
     fold (\<lambda>emotion (counter, recent_counter, older_counter).
             if trend_cutoff \<le> created_at row
             then (counter_inc emotion counter, counter_inc emotion recent_counter, older_counter)
             else (counter_inc emotion counter, recent_counter, counter_inc emotion older_counter))
          (or_empty (emotions row)) acc"

definition aggregate_emotions :: "int \<Rightarrow> raw_log list \<Rightarrow> emotion_trends_dict" where
  "aggregate_emotions now logs =
     (let trend_cutoff = now - days TREND_DAYS;
          (counter, recent_counter, older_counter) = fold (count_emotions trend_cutoff) logs ([], [], [])
      in \<lparr>top_emotions = most_common 5 counter,
           total_entries = counter_total counter,
           recent_trend = detect_emotion_trend recent_counter older_counter\<rparr>)"

subsection \<open>Topic and emotion association\<close>

text \<open>\<open>topic_emotions[topic][emotion] += 1\<close> on a \<open>defaultdict(Counter)\<close>.\<close>

fun topic_inc :: "ustr \<Rightarrow> ustr \<Rightarrow> (ustr \<times> ustr counter) list \<Rightarrow> (ustr \<times> ustr counter) list" where
  "topic_inc topic emotion [] = [(topic, [(emotion, 1)])]"
| "topic_inc topic emotion ((t, c) # rest) =
     (if t = topic then (t, counter_inc emotion c) # rest
      else (t, c) # topic_inc topic emotion rest)"

text \<open>The first loop of \<open>_aggregate_topic_emotions\<close>, from the innermost \<open>for\<close> outwards:
  over the emotions of an entry for one topic, over the topics of an entry, over the
  entries.\<close>

definition add_topic_emotions ::
  "ustr \<Rightarrow> ustr list \<Rightarrow> (ustr \<times> ustr counter) list \<Rightarrow> (ustr \<times> ustr counter) list" where
  "add_topic_emotions topic es te = fold (\<lambda>emotion te. topic_inc topic emotion te) es te"

definition add_log_topics :: "raw_log \<Rightarrow> (ustr \<times> ustr counter) list \<Rightarrow> (ustr \<times> ustr counter) list" where
  "add_log_topics row te =
     fold (\<lambda>topic te. add_topic_emotions topic (or_empty (emotions row)) te) (or_empty (topics row)) te"

definition collect_topic_emotions :: "raw_log list \<Rightarrow> (ustr \<times> ustr counter) list" where
  "collect_topic_emotions logs = fold add_log_topics logs []"

record topic_info =
  dominant_emotion :: ustr
  count :: nat
  distribution :: "ustr counter"

text \<open>The second loop of \<open>_aggregate_topic_emotions\<close>; \<open>most_common(1)[0]\<close> raises
  \<open>IndexError\<close> on an empty counter.\<close>

fun summarize_topics :: "(ustr \<times> ustr counter) list \<Rightarrow> exn + (ustr \<times> topic_info) list" where
  "summarize_topics [] = Inr []"
| "summarize_topics ((topic, emotion_counter) # rest) =
     (if counter_total emotion_counter < 2 then summarize_topics rest
      else
        (case most_common 1 emotion_counter of
           [] \<Rightarrow> Inl IndexError
         | dominant # _ \<Rightarrow>
             (case summarize_topics rest of
                Inl e \<Rightarrow> Inl e
              | Inr result \<Rightarrow>
                  Inr ((topic, \<lparr>dominant_emotion = fst dominant,
                                 count = counter_total emotion_counter,
                                 distribution = emotion_counter\<rparr>) # result))))"

definition aggregate_topic_emotions :: "raw_log list \<Rightarrow> exn + (ustr \<times> topic_info) list" where
  "aggregate_topic_emotions logs = summarize_topics (collect_topic_emotions logs)"

text \<open>
  The words of the specification: the number of co-occurrences of a topic with an
  emotion, counted over the entries with their multiplicities.
\<close>

definition cooccurrences :: "raw_log list \<Rightarrow> ustr \<Rightarrow> ustr \<Rightarrow> nat" where
  "cooccurrences logs topic emotion =
     sum_list (map (\<lambda>row. count_list (or_empty (topics row)) topic
                         * count_list (or_empty (emotions row)) emotion) logs)"

text \<open>The number of emotion occurrences that accompany a topic, over all entries.\<close>

definition topic_occurrences :: "raw_log list \<Rightarrow> ustr \<Rightarrow> nat" where
  "topic_occurrences logs topic =
     sum_list (map (\<lambda>row. count_list (or_empty (topics row)) topic
                         * length (or_empty (emotions row))) logs)"

text \<open>\<open>topic_emotions.get(topic, Counter())\<close>: the counter of a topic, empty when the
  topic has no entry.\<close>

definition topic_counter :: "(ustr \<times> ustr counter) list \<Rightarrow> ustr \<Rightarrow> ustr counter" where
  "topic_counter te topic = (case map_of te topic of None \<Rightarrow> [] | Some c \<Rightarrow> c)"

subsection \<open>Posting pattern\<close>

record posting_pattern_dict =
  avg_per_day :: rat
  peak_hours :: "int list"
  frequency_change :: ustr
  total_logs :: nat

text \<open>\<open>_aggregate_posting_pattern\<close>; the empty dictionary is \<open>None\<close>.\<close>

definition aggregate_posting_pattern :: "int \<Rightarrow> raw_log list \<Rightarrow> posting_pattern_dict option" where
  "aggregate_posting_pattern now logs =
     (if logs = [] then None
      else
        let daily_counts = fold (\<lambda>row c. counter_inc (date_of (created_at row)) c) logs [];
            hour_counts = fold (\<lambda>row c. counter_inc (hour_of (created_at row)) c) logs [];
            total_days = max (length daily_counts) 1;
            trend_cutoff = now - days TREND_DAYS;
            recent_count = length (filter (\<lambda>row. trend_cutoff \<le> created_at row) logs);
            older_count = length logs - recent_count;
            recent_avg = fdiv (of_nat recent_count) (of_nat TREND_DAYS);
            older_days = max (RECENT_DAYS - TREND_DAYS) 1;
            older_avg = fdiv (of_nat older_count) (of_nat older_days)
        in Some \<lparr>avg_per_day = pyround1 (fdiv (of_nat (length logs)) (of_nat total_days)),
                  peak_hours = map fst (most_common 3 hour_counts),
                  frequency_change =
                    (if 0 < older_avg \<and> recent_avg < fmul older_avg (fl (1 / 2)) then ascii ''decreasing''
                     else if 0 < older_avg \<and> fmul older_avg (fl (3 / 2)) < recent_avg then ascii ''increasing''
                     else ascii ''stable''),
                  total_logs = length logs\<rparr>)"

subsection \<open>Signals\<close>

definition fatigue_keywords :: "ustr list" where
  "fatigue_keywords =
    [[0x75B2, 0x308C],
     [0x3060, 0x308B, 0x3044],
     [0x7720, 0x3044],
     [0x3057, 0x3093, 0x3069, 0x3044],
     [0x3064, 0x3089, 0x3044],
     [0x304D, 0x3064, 0x3044]]"

definition fatigue_desc_head :: ustr where
  "fatigue_desc_head =
    [0x75B2, 0x52B4, 0x306B, 0x95A2, 0x3059, 0x308B, 0x6295, 0x7A3F, 0x304C]"

definition fatigue_desc_mid :: ustr where
  "fatigue_desc_mid =
    [0x56DE, 0xFF08]"

definition fatigue_desc_tail :: ustr where
  "fatigue_desc_tail =
    [0x65E5, 0x9593, 0xFF09, 0x3002, 0x6162, 0x6027, 0x7684, 0x306A, 0x75B2, 0x52B4, 0x306E,
     0x53EF, 0x80FD, 0x6027]"

definition stress_desc :: ustr where
  "stress_desc =
    [0x76F4, 0x8FD1, 0x31, 0x9031, 0x9593, 0x3067, 0x30B9, 0x30C8, 0x30EC, 0x30B9, 0x30FB,
     0x7126, 0x308A, 0x306E, 0x8A34, 0x3048, 0x304C, 0x5897, 0x52A0, 0x3057, 0x3066, 0x3044,
     0x308B]"

definition negativity_desc :: ustr where
  "negativity_desc =
    [0x76F4, 0x8FD1, 0x31, 0x9031, 0x9593, 0x3067, 0x30CD, 0x30AC, 0x30C6, 0x30A3, 0x30D6,
     0x306A, 0x611F, 0x60C5, 0x304C, 0x5897, 0x52A0, 0x50BE, 0x5411]"

definition posting_desc :: ustr where
  "posting_desc =
    [0x6295, 0x7A3F, 0x983B, 0x5EA6, 0x304C, 0x6E1B, 0x5C11, 0x50BE, 0x5411, 0x3002, 0x7121,
     0x6C17, 0x529B, 0x3084, 0x56DE, 0x907F, 0x306E, 0x5146, 0x5019, 0x306E, 0x53EF, 0x80FD,
     0x6027]"

definition state_desc :: ustr where
  "state_desc =
    [0x72B6, 0x614B, 0x8A18, 0x9332, 0x304C, 0x591A, 0x3044, 0x3002, 0x6DF1, 0x3044, 0x601D,
     0x8003, 0x3088, 0x308A, 0x3082, 0x65E5, 0x3005, 0x306E, 0x72B6, 0x614B, 0x5171, 0x6709,
     0x304C, 0x30E1, 0x30A4, 0x30F3]"

record signal =
  sig_type :: ustr
  severity :: ustr
  description :: ustr

text \<open>The number of entries whose text contains a fatigue keyword, and the number of
  \<open>state\<close> entries among the first twenty.\<close>

definition fatigue_count :: "raw_log list \<Rightarrow> nat" where
  "fatigue_count logs =
     length (filter (\<lambda>row. list_ex (\<lambda>kw. contains kw (or_empty (content row))) fatigue_keywords) logs)"

definition state_count :: "raw_log list \<Rightarrow> nat" where
  "state_count logs =
     length (filter (\<lambda>row. case log_intent row of None \<Rightarrow> False | Some v \<Rightarrow> v = ascii ''state'')
                    (take 20 logs))"

text \<open>\<open>_detect_signals\<close>; the two aggregates are dictionaries, \<open>None\<close> when empty.\<close>

definition detect_signals ::
  "raw_log list \<Rightarrow> emotion_trends_dict option \<Rightarrow> posting_pattern_dict option \<Rightarrow> signal list" where
  "detect_signals logs emotion_trends posting_pattern =
     (let trend = map_option recent_trend emotion_trends;
          freq_change = map_option frequency_change posting_pattern
      in (if 5 \<le> fatigue_count logs
          then [\<lparr>sig_type = ascii ''fatigue_repetition'', severity = ascii ''warning'',
                  description = fatigue_desc_head @ str_of_nat (fatigue_count logs) @ fatigue_desc_mid
                                @ str_of_nat RECENT_DAYS @ fatigue_desc_tail\<rparr>]
          else [])
       @ (if trend = Some (ascii ''fatigue_increasing'')
          then [\<lparr>sig_type = ascii ''stress_increasing'', severity = ascii ''warning'',
                  description = stress_desc\<rparr>]
          else if trend = Some (ascii ''more_negative'')
          then [\<lparr>sig_type = ascii ''negativity_increasing'', severity = ascii ''info'',
                  description = negativity_desc\<rparr>]
          else [])
       @ (if freq_change = Some (ascii ''decreasing'')
          then [\<lparr>sig_type = ascii ''posting_decrease'', severity = ascii ''info'',
                  description = posting_desc\<rparr>]
          else [])
       @ (if 10 \<le> state_count logs
          then [\<lparr>sig_type = ascii ''state_dominant'', severity = ascii ''info'',
                  description = state_desc\<rparr>]
          else []))"

subsection \<open>Building and saving the profile\<close>

text \<open>\<open>updated_at\<close> is the time stamp itself rather than its ISO rendering; an empty
  aggregate dictionary is \<open>None\<close>.\<close>

record profile =
  updated_at :: int
  log_count :: nat
  period_days :: nat
  emotion_trends :: "emotion_trends_dict option"
  topic_emotion_map :: "(ustr \<times> topic_info) list"
  posting_pattern :: "posting_pattern_dict option"
  signals :: "signal list"

definition empty_profile :: "int \<Rightarrow> profile" where
  "empty_profile now =
     \<lparr>updated_at = now, log_count = 0, period_days = RECENT_DAYS, emotion_trends = None,
      topic_emotion_map = [], posting_pattern = None, signals = []\<rparr>"

text \<open>
  The persistent store as the session sees it: the rows of \<open>raw_logs\<close>, the rows of
  \<open>users\<close> by primary key, and the number of commits made so far.
\<close>

record user =
  email :: ustr
  profile_data :: "profile option"

record db =
  raw_logs :: "raw_log list"
  users :: "nat \<rightharpoonup> user"
  commits :: nat

text \<open>The query of \<open>build_profile\<close>: the analyzed rows of the user not older than the
  cutoff, newest first, at most 200.\<close>

definition query_logs :: "db \<Rightarrow> nat \<Rightarrow> int \<Rightarrow> raw_log list" where
  "query_logs d uid cutoff =
     take 200 (sort_key (\<lambda>row. - created_at row)
                 (filter (\<lambda>row. user_id row = uid \<and> cutoff \<le> created_at row \<and> is_analyzed row)
                         (raw_logs d)))"

text \<open>
  \<open>build_profile\<close> reads the clock several times; \<open>clock k\<close> is the \<open>k\<close>-th reading of
  \<open>datetime.now\<close> during the call.
\<close>

definition build_profile :: "(nat \<Rightarrow> int) \<Rightarrow> db \<Rightarrow> nat \<Rightarrow> exn + profile" where
  "build_profile clock d uid =
     (let cutoff = clock 0 - days RECENT_DAYS;
          logs = query_logs d uid cutoff
      in if logs = [] then Inr (empty_profile (clock 1))
         else
           let et = aggregate_emotions (clock 1) logs in
           case aggregate_topic_emotions logs of
             Inl e \<Rightarrow> Inl e
           | Inr tm \<Rightarrow>
               let pp = aggregate_posting_pattern (clock 2) logs;
                   sg = detect_signals logs (Some et) pp
               in Inr \<lparr>updated_at = clock 3, log_count = length logs, period_days = RECENT_DAYS,
                        emotion_trends = Some et, topic_emotion_map = tm, posting_pattern = pp,
                        signals = sg\<rparr>)"

text \<open>\<open>build_and_save\<close> returns the profile and the store it leaves behind.\<close>

definition build_and_save :: "(nat \<Rightarrow> int) \<Rightarrow> db \<Rightarrow> nat \<Rightarrow> (exn + profile) \<times> db" where
  "build_and_save clock d uid =
     (case build_profile clock d uid of
        Inl e \<Rightarrow> (Inl e, d)
      | Inr p \<Rightarrow>
          (case users d uid of
             None \<Rightarrow> (Inr p, d)
           | Some u \<Rightarrow>
               (Inr p, d\<lparr>users := (users d)(uid \<mapsto> u\<lparr>profile_data := Some p\<rparr>),
                          commits := commits d + 1\<rparr>)))"


section \<open>Example environments\<close>

text \<open>
  Concrete collaborators on which the model is evaluated: a manager with no client, a
  manager handing out one provider, a provider whose initialization fails, a provider
  that answers every JSON request with one value, and \<open>str.lower\<close> restricted to
  ASCII letters.
\<close>

definition no_manager :: llm_manager where
  "no_manager = (\<lambda>r. Inl (ClientError []))"

definition manager_of :: "provider \<Rightarrow> llm_manager" where
  "manager_of p = (\<lambda>r. Inr p)"

definition broken_provider :: provider where
  "broken_provider =
     \<lparr>initialize = Some (ClientError []),
      generate_json = (\<lambda>m t. Inl (ClientError [])),
      generate_text = (\<lambda>m t. Inl (ClientError []))\<rparr>"

definition json_provider :: "json \<Rightarrow> provider" where
  "json_provider j =
     \<lparr>initialize = None,
      generate_json = (\<lambda>m t. Inr j),
      generate_text = (\<lambda>m t. Inl (ClientError []))\<rparr>"

definition ascii_lower :: "ustr \<Rightarrow> ustr" where
  "ascii_lower s = map (\<lambda>c. if 65 \<le> c \<and> c \<le> 90 then c + 32 else c) s"

definition zero_clock :: "nat \<Rightarrow> int" where
  "zero_clock k = 0"

section \<open>Properties of the values\<close>

lemma fl_zero: "fl 0 = 0"
  by (simp add: fl_def)

lemma startswith_iff_prefix: "startswith kw t \<longleftrightarrow> prefix kw t"
  by (induction kw t rule: startswith.induct) auto

lemma contains_iff_sublist: "contains kw t \<longleftrightarrow> sublist kw t"
proof (induction t)
  case Nil
  then show ?case by simp
next
  case (Cons c cs)
  then show ?case by (simp add: startswith_iff_prefix sublist_Cons_right)
qed

lemma bitlen_small: "0 < n \<Longrightarrow> n < 2 ^ 53 \<Longrightarrow> bitlen (int n) \<le> 53"
  by (metis less_power_nat_iff_bitlen of_nat_numeral)

lemma round_half_even_of_int: "round_half_even (of_int z) = z"
  by (simp add: round_half_even_def)

lemma binade_of_nat_le:
  assumes "0 < n" "n < 2 ^ 53"
  shows "binade (of_nat n) \<le> 52"
proof -
  have "bitlen 1 = 1" by code_simp
  then show ?thesis
    using bitlen_small [OF assms] by (simp add: binade_def Let_def)
qed

lemma fl_of_nat:
  assumes "n < 2 ^ 53"
  shows "fl (of_nat n) = of_nat n"
proof (cases "n = 0")
  case True
  then show ?thesis by (simp add: fl_def)
next
  case False
  define m where "m = nat (52 - binade (of_nat n))"
  have le: "binade (of_nat n) \<le> 52"
    using binade_of_nat_le False assms by simp
  have u: "pow2 (binade (of_nat n) - 52) = 1 / 2 ^ m"
  proof (cases "binade (of_nat n) = 52")
    case True
    then show ?thesis by (simp add: pow2_def m_def)
  next
    case False
    with le have "binade (of_nat n) - 52 < 0" by simp
    then show ?thesis by (simp add: pow2_def m_def)
  qed
  have q: "round_half_even (of_nat n * 2 ^ m) = int n * 2 ^ m"
    using round_half_even_of_int [of "int n * 2 ^ m"] by simp
  show ?thesis
    using False by (simp add: fl_def Let_def u q)
qed

section \<open>Fallback classification\<close>

lemma score_keywords_none:
  "\<forall>kw\<in>set kws. \<not> contains kw t \<Longrightarrow> score_keywords t i kws sc = sc"
  by (induction kws arbitrary: sc) (simp_all add: score_keywords_def)

lemma score_keywords_count:
  "score_keywords t i kws sc = (bump i ^^ length (filter (\<lambda>kw. contains kw t) kws)) sc"
  by (induction kws arbitrary: sc) (simp_all add: score_keywords_def funpow_swap1)

lemma bump_funpow:
  "(bump i ^^ k) sc = map (\<lambda>(j, v). if j = i then (j, ((\<lambda>v. fadd v 1) ^^ k) v) else (j, v)) sc"
proof (induction k)
  case 0
  show ?case by (induction sc) auto
next
  case (Suc k)
  then show ?case by (auto simp add: bump_def case_prod_beta)
qed

lemma fadd_one_funpow:
  "k < 2 ^ 53 \<Longrightarrow> ((\<lambda>v. fadd v 1) ^^ k) 0 = of_nat k"
proof (induction k)
  case 0
  then show ?case by simp
next
  case (Suc k)
  then have "((\<lambda>v. fadd v 1) ^^ k) 0 = of_nat k" by simp
  moreover have "fl (of_nat (Suc k)) = of_nat (Suc k)"
    using Suc.prems by (rule fl_of_nat)
  ultimately show ?case by (simp add: fadd_def add.commute)
qed

lemma score_all_KEYWORD_MAP:
  "score_all KEYWORD_MAP t sc =
     score_keywords t BRAINSTORM brainstorm_keywords
      (score_keywords t DEEP_DIVE deep_dive_keywords
        (score_keywords t KNOWLEDGE knowledge_keywords
          (score_keywords t EMPATHY empathy_keywords sc)))"
  by (simp add: score_all_def KEYWORD_MAP_def)

lemma fl_literals: "fl (7 / 10) < 1" "fl 1 = 1" "0 < fl (7 / 10)"
  by code_simp+

text \<open>
  C4: when no keyword of any category's list occurs in the input text as a substring,
  fallback classification returns the intent chat with the confidence \<open>0.3\<close>.
\<close>

theorem fallback_no_keyword:
  assumes "\<forall>(i, kws)\<in>set KEYWORD_MAP. \<forall>kw\<in>set kws. \<not> sublist kw t"
  shows "fallback_classify t = Inr \<lparr>intent = CHAT, confidence = Finite (fl (3 / 10))\<rparr>"
proof -
  from assms have none:
    "\<forall>kw\<in>set empathy_keywords. \<not> contains kw t"
    "\<forall>kw\<in>set knowledge_keywords. \<not> contains kw t"
    "\<forall>kw\<in>set deep_dive_keywords. \<not> contains kw t"
    "\<forall>kw\<in>set brainstorm_keywords. \<not> contains kw t"
    by (simp_all add: KEYWORD_MAP_def contains_iff_sublist)
  have "score_all KEYWORD_MAP t sc = sc" for sc
    by (simp add: score_all_KEYWORD_MAP score_keywords_none none)
  then show ?thesis
    by (simp add: fallback_classify_def fallback_classify_with_def init_scores_def
        conversation_intents_def max_by_value_def)
qed

theorem fallback_no_keyword_witness:
  "fallback_classify [0x3053, 0x3093, 0x306B, 0x3061, 0x306F]
     = Inr \<lparr>intent = CHAT, confidence = Finite (fl (3 / 10))\<rparr>"
proof -
  have h: "\<forall>(i, kws)\<in>set KEYWORD_MAP. \<forall>kw\<in>set kws. \<not> sublist kw [0x3053, 0x3093, 0x306B, 0x3061, 0x306F]"
    unfolding contains_iff_sublist [symmetric]
    by (simp add: KEYWORD_MAP_def empathy_keywords_def knowledge_keywords_def
        deep_dive_keywords_def brainstorm_keywords_def)
  show ?thesis using fallback_no_keyword [OF h] .
qed

lemma single_category_scores:
  assumes k: "0 < k" "k < 2 ^ 53" and c: "c \<in> {EMPATHY, KNOWLEDGE, DEEP_DIVE, BRAINSTORM}"
  shows "max_by_value ((bump c ^^ k) (init_scores conversation_intents)) = Inr (c, of_nat k)"
    and "sum_values ((bump c ^^ k) (init_scores conversation_intents)) = of_nat k"
proof -
  have e: "((\<lambda>v. fadd v 1) ^^ k) 0 = of_nat k"
    using k by (simp add: fadd_one_funpow)
  have fz: "fadd 0 0 = 0" "fadd 0 (of_nat k) = of_nat k" "fadd (of_nat k) 0 = of_nat k"
    using k by (simp_all add: fadd_def fl_of_nat fl_zero)
  show "max_by_value ((bump c ^^ k) (init_scores conversation_intents)) = Inr (c, of_nat k)"
    using c k(1) by (auto simp add: bump_funpow init_scores_def conversation_intents_def max_by_value_def e)
  show "sum_values ((bump c ^^ k) (init_scores conversation_intents)) = of_nat k"
    using c by (auto simp add: bump_funpow init_scores_def conversation_intents_def sum_values_def e fz)
qed

lemma single_category_result:
  assumes m: "(c, kws) \<in> set KEYWORD_MAP"
    and hit: "\<exists>kw\<in>set kws. sublist kw t"
    and others: "\<forall>(c', kws')\<in>set KEYWORD_MAP. c' \<noteq> c \<longrightarrow> (\<forall>kw\<in>set kws'. \<not> sublist kw t)"
  shows "fallback_classify t =
           Inr \<lparr>intent = c,
                confidence = Finite (pymin (fdiv (of_nat (length (filter (\<lambda>kw. sublist kw t) kws)))
                                                  (of_nat (length (filter (\<lambda>kw. sublist kw t) kws))))
                                           (fl (7 / 10)))\<rparr>
         \<and> fallback_classify t = Inr \<lparr>intent = c, confidence = Finite (fl (7 / 10))\<rparr>"
proof -
  define k where "k = length (filter (\<lambda>kw. contains kw t) kws)"
  have kpos: "0 < k"
    using hit by (auto simp add: k_def contains_iff_sublist filter_empty_conv)
  have "length kws \<le> 16"
    using m by (auto simp add: KEYWORD_MAP_def empathy_keywords_def knowledge_keywords_def
        deep_dive_keywords_def brainstorm_keywords_def)
  moreover have "k \<le> length kws" by (simp add: k_def)
  ultimately have ksmall: "k < 2 ^ 53" by simp
  have cmem: "c \<in> {EMPATHY, KNOWLEDGE, DEEP_DIVE, BRAINSTORM}"
    using m by (auto simp add: KEYWORD_MAP_def)
  have sc: "score_all KEYWORD_MAP t sc = (bump c ^^ k) sc" for sc
    using m others
    by (auto simp add: KEYWORD_MAP_def score_all_def score_keywords_none contains_iff_sublist
        score_keywords_count k_def)
  have conf: "pymin (fdiv (of_nat k) (of_nat k)) (fl (7 / 10)) = fl (7 / 10)"
    using kpos by (simp add: fdiv_def pymin_def fl_literals)
  have res: "fallback_classify t = Inr \<lparr>intent = c, confidence = Finite (fl (7 / 10))\<rparr>"
    using kpos conf
    by (simp add: fallback_classify_def fallback_classify_with_def sc
        single_category_scores [OF kpos ksmall cmem] Let_def)
  show ?thesis
    using res conf by (simp add: k_def contains_iff_sublist)
qed

text \<open>
  C5: when the input text contains at least one keyword of exactly one category and no
  keyword of any other category, fallback classification returns that category; its
  confidence is the winning score divided by the total score, capped at \<open>0.7\<close>, which
  here is exactly \<open>0.7\<close>.
\<close>

theorem fallback_single_category:
  assumes m: "(c, kws) \<in> set KEYWORD_MAP"
    and hit: "\<exists>kw\<in>set kws. sublist kw t"
    and others: "\<forall>(c', kws')\<in>set KEYWORD_MAP. c' \<noteq> c \<longrightarrow> (\<forall>kw\<in>set kws'. \<not> sublist kw t)"
  shows "fallback_classify t =
           Inr \<lparr>intent = c,
                confidence = Finite (pymin (fdiv (of_nat (length (filter (\<lambda>kw. sublist kw t) kws)))
                                                  (of_nat (length (filter (\<lambda>kw. sublist kw t) kws))))
                                           (fl (7 / 10)))\<rparr>
         \<and> fallback_classify t = Inr \<lparr>intent = c, confidence = Finite (fl (7 / 10))\<rparr>"
  using m hit others by (rule single_category_result)

theorem fallback_single_category_witness:
  "(KNOWLEDGE, knowledge_keywords) \<in> set KEYWORD_MAP
   \<and> (\<exists>kw\<in>set knowledge_keywords. sublist kw [0x6559, 0x3048, 0x3066])
   \<and> fallback_classify [0x6559, 0x3048, 0x3066]
       = Inr \<lparr>intent = KNOWLEDGE, confidence = Finite (fl (7 / 10))\<rparr>"
proof -
  have m: "(KNOWLEDGE, knowledge_keywords) \<in> set KEYWORD_MAP"
    by (simp add: KEYWORD_MAP_def)
  have hit: "\<exists>kw\<in>set knowledge_keywords. sublist kw [0x6559, 0x3048, 0x3066]"
    unfolding contains_iff_sublist [symmetric] by (simp add: knowledge_keywords_def)
  have others: "\<forall>(c', kws')\<in>set KEYWORD_MAP. c' \<noteq> KNOWLEDGE \<longrightarrow> (\<forall>kw\<in>set kws'. \<not> sublist kw [0x6559, 0x3048, 0x3066])"
    unfolding contains_iff_sublist [symmetric]
    by (simp add: KEYWORD_MAP_def empathy_keywords_def deep_dive_keywords_def brainstorm_keywords_def)
  from fallback_single_category [OF m hit others]
  have r: "fallback_classify [0x6559, 0x3048, 0x3066]
             = Inr \<lparr>intent = KNOWLEDGE, confidence = Finite (fl (7 / 10))\<rparr>"
    by (rule conjunct2)
  show ?thesis
    using m hit r by blast
qed

section \<open>Response strategies\<close>

lemma research_replies_differ: "research_error_reply \<noteq> research_unavailable_reply"
  by (simp add: research_error_reply_def research_unavailable_reply_def)

text \<open>
  C1 as stated fails for deep research: with no client the node answers that the service
  is unavailable, and with a client whose initialization raises it answers that an error
  occurred; the two replies differ.
\<close>

theorem research_failure_reply_counterexample:
  "run_deep_research_node no_manager \<lparr>input_text = [], previous_response = None\<rparr>
     = Inr research_unavailable_reply
   \<and> run_deep_research_node (manager_of broken_provider) \<lparr>input_text = [], previous_response = None\<rparr>
     = Inr research_error_reply
   \<and> research_error_reply \<noteq> research_unavailable_reply"
  by (simp add: run_deep_research_node_def node_get_provider_def no_manager_def manager_of_def
      deep_research_try_def broken_provider_def research_replies_differ)

text \<open>
  C1, as amended: no strategy propagates an exception. In the chat, empathy and deep-dive
  strategies an exception raised by the initialization or the generation gives the same
  canned reply as an unobtainable client. In the deep-research strategy it gives a
  separate error reply, different from the reply for an unobtainable client.
\<close>

theorem strategy_failure_replies:
  "(\<exists>r. run_chat_node mgr st = Inr r) \<and> (\<exists>r. run_empathy_node mgr st = Inr r)
   \<and> (\<exists>r. run_deep_dive_node mgr st = Inr r) \<and> (\<exists>r. run_deep_research_node mgr st = Inr r)
   \<and> (\<forall>e. mgr FAST = Inl e \<longrightarrow> run_chat_node mgr st = Inr chat_fallback_reply)
   \<and> (\<forall>p e. mgr FAST = Inr p \<and> chat_try p st = Inl e \<longrightarrow> run_chat_node mgr st = Inr chat_fallback_reply)
   \<and> (\<forall>e. mgr FAST = Inl e \<longrightarrow> run_empathy_node mgr st = Inr empathy_fallback_reply)
   \<and> (\<forall>p e. mgr FAST = Inr p \<and> empathy_try p st = Inl e \<longrightarrow> run_empathy_node mgr st = Inr empathy_fallback_reply)
   \<and> (\<forall>e. mgr BALANCED = Inl e \<longrightarrow> run_deep_dive_node mgr st = Inr deep_dive_fallback_reply)
   \<and> (\<forall>p e. mgr BALANCED = Inr p \<and> deep_dive_try p st = Inl e \<longrightarrow> run_deep_dive_node mgr st = Inr deep_dive_fallback_reply)
   \<and> (\<forall>e. mgr DEEP = Inl e \<longrightarrow> run_deep_research_node mgr st = Inr research_unavailable_reply)
   \<and> (\<forall>p e. mgr DEEP = Inr p \<and> deep_research_try p st = Inl e \<longrightarrow> run_deep_research_node mgr st = Inr research_error_reply)
   \<and> research_error_reply \<noteq> research_unavailable_reply"
  by (simp add: run_chat_node_def run_empathy_node_def run_deep_dive_node_def
      run_deep_research_node_def node_get_provider_def research_replies_differ
      split: sum.splits option.splits)

lemma try_raises:
  "chat_try p st = Inl e \<longleftrightarrow>
     initialize p = Some e \<or> (initialize p = None \<and>
       generate_text p [(System, chat_system_prompt), (User, input_text st)] (fl (7 / 10)) = Inl e)"
  "empathy_try p st = Inl e \<longleftrightarrow>
     initialize p = Some e \<or> (initialize p = None \<and>
       generate_text p [(System, empathy_system_prompt), (User, input_text st)] (fl (1 / 2)) = Inl e)"
  "deep_dive_try p st = Inl e \<longleftrightarrow>
     initialize p = Some e \<or> (initialize p = None \<and>
       generate_text p [(System, deep_dive_system_prompt), (User, input_text st)] (fl (4 / 10)) = Inl e)"
  "deep_research_try p st = Inl e \<longleftrightarrow>
     initialize p = Some e \<or> (initialize p = None \<and>
       generate_text p [(System, research_system_prompt), (User, research_query st)] (fl (3 / 10)) = Inl e)"
  by (auto simp add: chat_try_def empathy_try_def deep_dive_try_def deep_research_try_def
      split: option.splits sum.splits)

theorem strategy_failure_replies_witness:
  "run_chat_node (manager_of broken_provider) \<lparr>input_text = [], previous_response = None\<rparr>
     = Inr chat_fallback_reply
   \<and> run_deep_research_node (manager_of broken_provider) \<lparr>input_text = [], previous_response = None\<rparr>
     = Inr research_error_reply"
proof -
  have a: "manager_of broken_provider FAST = Inr broken_provider
           \<and> chat_try broken_provider \<lparr>input_text = [], previous_response = None\<rparr> = Inl (ClientError [])"
    by (simp add: manager_of_def chat_try_def broken_provider_def)
  have b: "manager_of broken_provider DEEP = Inr broken_provider
           \<and> deep_research_try broken_provider \<lparr>input_text = [], previous_response = None\<rparr> = Inl (ClientError [])"
    by (simp add: manager_of_def deep_research_try_def broken_provider_def)
  show ?thesis
    using a b strategy_failure_replies [of "manager_of broken_provider" "\<lparr>input_text = [], previous_response = None\<rparr>"]
    by blast
qed

section \<open>Empty profile\<close>

lemma query_logs_empty:
  assumes "\<forall>row\<in>set (raw_logs d). \<not> (user_id row = uid \<and> is_analyzed row \<and> cutoff \<le> created_at row)"
  shows "query_logs d uid cutoff = []"
proof -
  have "filter (\<lambda>row. user_id row = uid \<and> cutoff \<le> created_at row \<and> is_analyzed row) (raw_logs d) = []"
    using assms by (auto simp add: filter_empty_conv)
  then show ?thesis by (simp add: query_logs_def)
qed

text \<open>
  C2, as amended: for a user with no analyzed entry inside the 14-day window,
  \<open>build_profile\<close> returns the canonical empty profile (no entries, period 14, every
  aggregate empty) and, being a read, writes nothing. \<open>build_and_save\<close> leaves the store
  unchanged only when the user has no record; when the record exists it overwrites the
  profile field with the empty profile and commits.
\<close>

theorem empty_window_profile:
  assumes "\<forall>row\<in>set (raw_logs d).
             \<not> (user_id row = uid \<and> is_analyzed row \<and> clock 0 - days RECENT_DAYS \<le> created_at row)"
  shows "build_profile clock d uid = Inr (empty_profile (clock 1))
       \<and> empty_profile (clock 1) =
           \<lparr>updated_at = clock 1, log_count = 0, period_days = 14, emotion_trends = None,
            topic_emotion_map = [], posting_pattern = None, signals = []\<rparr>
       \<and> (users d uid = None \<longrightarrow> build_and_save clock d uid = (Inr (empty_profile (clock 1)), d))
       \<and> (\<forall>u. users d uid = Some u \<longrightarrow>
             build_and_save clock d uid =
               (Inr (empty_profile (clock 1)),
                d\<lparr>users := (users d)(uid \<mapsto> u\<lparr>profile_data := Some (empty_profile (clock 1))\<rparr>),
                  commits := commits d + 1\<rparr>))"
proof -
  have b: "build_profile clock d uid = Inr (empty_profile (clock 1))"
    by (simp add: build_profile_def query_logs_empty [OF assms])
  show ?thesis
    by (simp add: b build_and_save_def empty_profile_def RECENT_DAYS_def)
qed

theorem empty_window_profile_witness:
  "build_profile zero_clock \<lparr>raw_logs = [], users = [1 \<mapsto> \<lparr>email = [], profile_data = None\<rparr>], commits = 0\<rparr> 1
     = Inr (empty_profile 0)
   \<and> build_and_save zero_clock \<lparr>raw_logs = [], users = Map.empty, commits = 0\<rparr> 1
     = (Inr (empty_profile 0), \<lparr>raw_logs = [], users = Map.empty, commits = 0\<rparr>)"
proof -
  have a: "build_profile zero_clock \<lparr>raw_logs = [], users = [1 \<mapsto> \<lparr>email = [], profile_data = None\<rparr>], commits = 0\<rparr> 1
     = Inr (empty_profile 0)"
    using empty_window_profile [of "\<lparr>raw_logs = [], users = [1 \<mapsto> \<lparr>email = [], profile_data = None\<rparr>], commits = 0\<rparr>" 1 zero_clock]
    by (simp add: zero_clock_def)
  have b: "build_and_save zero_clock \<lparr>raw_logs = [], users = Map.empty, commits = 0\<rparr> 1
     = (Inr (empty_profile 0), \<lparr>raw_logs = [], users = Map.empty, commits = 0\<rparr>)"
    using empty_window_profile [of "\<lparr>raw_logs = [], users = Map.empty, commits = 0\<rparr>" 1 zero_clock]
    by (simp add: zero_clock_def)
  show ?thesis using a b by simp
qed

text \<open>
  C2 as stated fails through \<open>build_and_save\<close>: for an existing user with no entries,
  one commit is made and the empty profile is stored in the user's record.
\<close>

theorem save_empty_profile_counterexample:
  "commits (snd (build_and_save zero_clock
      \<lparr>raw_logs = [], users = [1 \<mapsto> \<lparr>email = [], profile_data = None\<rparr>], commits = 0\<rparr> 1)) = 1
   \<and> users (snd (build_and_save zero_clock
      \<lparr>raw_logs = [], users = [1 \<mapsto> \<lparr>email = [], profile_data = None\<rparr>], commits = 0\<rparr> 1)) 1
     = Some \<lparr>email = [], profile_data = Some (empty_profile 0)\<rparr>"
  by (simp add: build_and_save_def build_profile_def query_logs_def zero_clock_def)

section \<open>Signals\<close>

lemma fatigue_count_sublist:
  "fatigue_count logs =
     length (filter (\<lambda>row. \<exists>kw\<in>set fatigue_keywords. sublist kw (or_empty (content row))) logs)"
  by (simp add: fatigue_count_def list_ex_iff contains_iff_sublist)

lemma signal_types_distinct:
  "ascii ''stress_increasing'' \<noteq> ascii ''fatigue_repetition''"
  "ascii ''negativity_increasing'' \<noteq> ascii ''fatigue_repetition''"
  "ascii ''posting_decrease'' \<noteq> ascii ''fatigue_repetition''"
  "ascii ''state_dominant'' \<noteq> ascii ''fatigue_repetition''"
  "ascii ''negativity_increasing'' \<noteq> ascii ''stress_increasing''"
  "ascii ''posting_decrease'' \<noteq> ascii ''stress_increasing''"
  "ascii ''state_dominant'' \<noteq> ascii ''stress_increasing''"
  "ascii ''posting_decrease'' \<noteq> ascii ''negativity_increasing''"
  "ascii ''state_dominant'' \<noteq> ascii ''negativity_increasing''"
  "ascii ''state_dominant'' \<noteq> ascii ''posting_decrease''"
  "ascii ''warning'' \<noteq> ascii ''info''"
  "ascii ''fatigue_increasing'' \<noteq> ascii ''more_negative''"
  by (simp_all add: ascii_def)

text \<open>
  C9: when at least five of the entries contain a fatigue keyword in their text, the
  signals contain a \<open>fatigue_repetition\<close> signal of severity \<open>warning\<close>; when at most four
  do, no \<open>fatigue_repetition\<close> signal is emitted.
\<close>

theorem fatigue_repetition_threshold:
  "(5 \<le> length (filter (\<lambda>row. \<exists>kw\<in>set fatigue_keywords. sublist kw (or_empty (content row))) logs)
      \<longrightarrow> (\<exists>s\<in>set (detect_signals logs et pp).
             sig_type s = ascii ''fatigue_repetition'' \<and> severity s = ascii ''warning''))
   \<and> (length (filter (\<lambda>row. \<exists>kw\<in>set fatigue_keywords. sublist kw (or_empty (content row))) logs) \<le> 4
      \<longrightarrow> (\<forall>s\<in>set (detect_signals logs et pp). sig_type s \<noteq> ascii ''fatigue_repetition''))"
  unfolding fatigue_count_sublist [symmetric]
  by (auto simp add: detect_signals_def Let_def signal_types_distinct)

theorem fatigue_repetition_threshold_witness:
  "\<exists>s\<in>set (detect_signals
      (replicate 5 \<lparr>user_id = 1, content = Some [0x75B2, 0x308C], created_at = 0, emotions = None,
                       topics = None, log_intent = None, is_analyzed = True\<rparr>) None None).
     sig_type s = ascii ''fatigue_repetition'' \<and> severity s = ascii ''warning''"
proof -
  have "5 \<le> length (filter (\<lambda>row. \<exists>kw\<in>set fatigue_keywords. sublist kw (or_empty (content row)))
      (replicate 5 \<lparr>user_id = 1, content = Some [0x75B2, 0x308C], created_at = 0, emotions = None,
                       topics = None, log_intent = None, is_analyzed = True\<rparr>))"
    unfolding contains_iff_sublist [symmetric]
    by (simp add: fatigue_keywords_def or_empty_def)
  then show ?thesis
    using fatigue_repetition_threshold by blast
qed

text \<open>
  C10: the signals have pairwise different types, all drawn from the five known types;
  the severity is \<open>warning\<close> exactly for \<open>fatigue_repetition\<close> and
  \<open>stress_increasing\<close> and \<open>info\<close> otherwise; \<open>stress_increasing\<close> and
  \<open>negativity_increasing\<close> never occur together; there are at most four signals, in the
  order fatigue repetition, stress or negativity, posting decrease, state dominance.
\<close>

theorem signals_shape:
  "distinct (map sig_type (detect_signals logs et pp))
   \<and> set (map sig_type (detect_signals logs et pp))
       \<subseteq> {ascii ''fatigue_repetition'', ascii ''stress_increasing'', ascii ''negativity_increasing'',
           ascii ''posting_decrease'', ascii ''state_dominant''}
   \<and> (\<forall>s\<in>set (detect_signals logs et pp).
         severity s = (if sig_type s = ascii ''fatigue_repetition'' \<or> sig_type s = ascii ''stress_increasing''
                       then ascii ''warning'' else ascii ''info''))
   \<and> \<not> (ascii ''stress_increasing'' \<in> set (map sig_type (detect_signals logs et pp))
          \<and> ascii ''negativity_increasing'' \<in> set (map sig_type (detect_signals logs et pp)))
   \<and> length (detect_signals logs et pp) \<le> 4
   \<and> (subseq (map sig_type (detect_signals logs et pp))
          [ascii ''fatigue_repetition'', ascii ''stress_increasing'', ascii ''posting_decrease'',
           ascii ''state_dominant'']
        \<or> subseq (map sig_type (detect_signals logs et pp))
          [ascii ''fatigue_repetition'', ascii ''negativity_increasing'', ascii ''posting_decrease'',
           ascii ''state_dominant''])"
  by (auto simp add: detect_signals_def Let_def signal_types_distinct signal_types_distinct [symmetric])

theorem signals_shape_witness:
  "length (detect_signals
      (replicate 5 \<lparr>user_id = 1, content = Some [0x75B2, 0x308C], created_at = 0, emotions = None,
                       topics = None, log_intent = Some (ascii ''state''), is_analyzed = True\<rparr>)
      None None) \<le> 4
   \<and> distinct (map sig_type (detect_signals
      (replicate 5 \<lparr>user_id = 1, content = Some [0x75B2, 0x308C], created_at = 0, emotions = None,
                       topics = None, log_intent = Some (ascii ''state''), is_analyzed = True\<rparr>)
      None None))"
  using signals_shape [of "replicate 5 \<lparr>user_id = 1, content = Some [0x75B2, 0x308C], created_at = 0,
      emotions = None, topics = None, log_intent = Some (ascii ''state''), is_analyzed = True\<rparr>" None None]
  by blast

section \<open>Classification never yields the state intent\<close>

lemma pow2_pos: "0 < pow2 e"
  by (simp add: pow2_def)

lemma round_half_even_nonneg: "0 \<le> y \<Longrightarrow> 0 \<le> round_half_even y"
  by (simp add: round_half_even_def Let_def)

lemma fl_nonneg: "0 \<le> x \<Longrightarrow> 0 \<le> fl x"
  by (simp add: fl_def Let_def pow2_pos round_half_even_nonneg less_imp_le)

lemma filter_length_small:
  fixes xs :: "ustr list"
  assumes "length xs \<le> 16"
  shows "length (filter P xs) < 2 ^ 53"
proof -
  have "length (filter P xs) \<le> length xs" by simp
  also note assms
  also have "(16::nat) < 2 ^ 53" by simp
  finally show ?thesis .
qed

lemma keyword_list_lengths:
  "length empathy_keywords \<le> 16" "length knowledge_keywords \<le> 16"
  "length deep_dive_keywords \<le> 16" "length brainstorm_keywords \<le> 16"
  by (simp_all add: empathy_keywords_def knowledge_keywords_def deep_dive_keywords_def
      brainstorm_keywords_def)

lemma hits_small:
  "length (filter P empathy_keywords) < 2 ^ 53"
  "length (filter P knowledge_keywords) < 2 ^ 53"
  "length (filter P deep_dive_keywords) < 2 ^ 53"
  "length (filter P brainstorm_keywords) < 2 ^ 53"
  by (rule filter_length_small, rule keyword_list_lengths)+

lemma fallback_scores:
  "score_all KEYWORD_MAP t (init_scores conversation_intents) =
     [(CHAT, 0),
      (EMPATHY, of_nat (length (filter (\<lambda>kw. contains kw t) empathy_keywords))),
      (KNOWLEDGE, of_nat (length (filter (\<lambda>kw. contains kw t) knowledge_keywords))),
      (DEEP_DIVE, of_nat (length (filter (\<lambda>kw. contains kw t) deep_dive_keywords))),
      (BRAINSTORM, of_nat (length (filter (\<lambda>kw. contains kw t) brainstorm_keywords))),
      (STATE, 0)]"
proof -
  have step: "score_keywords t i kws sc =
      map (\<lambda>(j, v). if j = i then (j, of_nat (length (filter (\<lambda>kw. contains kw t) kws))) else (j, v)) sc"
    if "length (filter (\<lambda>kw. contains kw t) kws) < 2 ^ 53" "\<forall>(j, v)\<in>set sc. j = i \<longrightarrow> v = 0"
    for i kws sc
  proof -
    have "map (\<lambda>(j, v). if j = i then (j, ((\<lambda>v. fadd v 1) ^^ length (filter (\<lambda>kw. contains kw t) kws)) v) else (j, v)) sc
        = map (\<lambda>(j, v). if j = i then (j, of_nat (length (filter (\<lambda>kw. contains kw t) kws))) else (j, v)) sc"
      using that(2) by (intro map_cong) (auto simp add: fadd_one_funpow [OF that(1)])
    then show ?thesis by (simp add: score_keywords_count bump_funpow)
  qed
  have 1: "score_keywords t EMPATHY empathy_keywords (init_scores conversation_intents) =
      [(CHAT, 0), (EMPATHY, of_nat (length (filter (\<lambda>kw. contains kw t) empathy_keywords))),
       (KNOWLEDGE, 0), (DEEP_DIVE, 0), (BRAINSTORM, 0), (STATE, 0)]"
    by (subst step [OF hits_small(1)]) (simp_all add: init_scores_def conversation_intents_def)
  have 2: "score_keywords t KNOWLEDGE knowledge_keywords
       [(CHAT, 0), (EMPATHY, a), (KNOWLEDGE, 0), (DEEP_DIVE, 0), (BRAINSTORM, 0), (STATE, 0)] =
      [(CHAT, 0), (EMPATHY, a), (KNOWLEDGE, of_nat (length (filter (\<lambda>kw. contains kw t) knowledge_keywords))),
       (DEEP_DIVE, 0), (BRAINSTORM, 0), (STATE, 0)]" for a
    by (subst step [OF hits_small(2)]) simp_all
  have 3: "score_keywords t DEEP_DIVE deep_dive_keywords
       [(CHAT, 0), (EMPATHY, a), (KNOWLEDGE, b), (DEEP_DIVE, 0), (BRAINSTORM, 0), (STATE, 0)] =
      [(CHAT, 0), (EMPATHY, a), (KNOWLEDGE, b),
       (DEEP_DIVE, of_nat (length (filter (\<lambda>kw. contains kw t) deep_dive_keywords))),
       (BRAINSTORM, 0), (STATE, 0)]" for a b
    by (subst step [OF hits_small(3)]) simp_all
  have 4: "score_keywords t BRAINSTORM brainstorm_keywords
       [(CHAT, 0), (EMPATHY, a), (KNOWLEDGE, b), (DEEP_DIVE, c), (BRAINSTORM, 0), (STATE, 0)] =
      [(CHAT, 0), (EMPATHY, a), (KNOWLEDGE, b), (DEEP_DIVE, c),
       (BRAINSTORM, of_nat (length (filter (\<lambda>kw. contains kw t) brainstorm_keywords))),
       (STATE, 0)]" for a b c
    by (subst step [OF hits_small(4)]) simp_all
  show ?thesis
    unfolding score_all_KEYWORD_MAP 1 2 3 4 ..
qed

lemma fl_three_tenths: "0 \<le> fl (3 / 10)" "fl (3 / 10) \<le> 1" "fl (7 / 10) \<le> 1" "0 \<le> fl (7 / 10)"
  by code_simp+

lemma fallback_confidence_valid:
  assumes "0 \<le> v"
  shows "0 \<le> pymin (if 0 < tot then fdiv v tot else fl (3 / 10)) (fl (7 / 10))"
    and "pymin (if 0 < tot then fdiv v tot else fl (3 / 10)) (fl (7 / 10)) \<le> 1"
proof -
  have "0 \<le> fdiv v tot" if "0 < tot"
    using that assms by (simp add: fdiv_def fl_nonneg)
  then show "0 \<le> pymin (if 0 < tot then fdiv v tot else fl (3 / 10)) (fl (7 / 10))"
    by (simp add: pymin_def fl_three_tenths)
  show "pymin (if 0 < tot then fdiv v tot else fl (3 / 10)) (fl (7 / 10)) \<le> 1"
    using fl_three_tenths(3) by (simp add: pymin_def)
qed

lemma max_from_cases:
  "max_from best sc = best \<or> (max_from best sc \<in> set sc \<and> snd best < snd (max_from best sc))"
proof (induction sc arbitrary: best)
  case Nil
  then show ?case by simp
next
  case (Cons kv rest)
  show ?case
  proof (cases "snd best < snd kv")
    case True
    with Cons [of kv] show ?thesis by auto
  next
    case False
    with Cons [of best] show ?thesis by auto
  qed
qed

lemma fallback_classify_total:
  "\<exists>r. fallback_classify t = Inr r \<and> valid_classification r
       \<and> intent r \<in> {CHAT, EMPATHY, KNOWLEDGE, DEEP_DIVE, BRAINSTORM}"
proof -
  define a b c d where "a = length (filter (\<lambda>kw. contains kw t) empathy_keywords)"
    and "b = length (filter (\<lambda>kw. contains kw t) knowledge_keywords)"
    and "c = length (filter (\<lambda>kw. contains kw t) deep_dive_keywords)"
    and "d = length (filter (\<lambda>kw. contains kw t) brainstorm_keywords)"
  define rest :: scores where "rest = [(EMPATHY, of_nat a), (KNOWLEDGE, of_nat b), (DEEP_DIVE, of_nat c),
      (BRAINSTORM, of_nat d), (STATE, 0)]"
  define m where "m = max_from (CHAT, 0) rest"
  have sc: "score_all KEYWORD_MAP t (init_scores conversation_intents) = (CHAT, 0) # rest"
    by (simp add: fallback_scores rest_def a_def b_def c_def d_def)
  have mv: "max_by_value ((CHAT, 0) # rest) = Inr m"
    by (simp add: max_by_value_def m_def)
  have cases: "m = (CHAT, 0) \<or> (m \<in> set rest \<and> 0 < snd m)"
    using max_from_cases [of "(CHAT, 0)" rest] by (simp add: m_def)
  then have nonneg: "0 \<le> snd m" by auto
  from cases have five: "snd m \<noteq> 0 \<longrightarrow> fst m \<in> {EMPATHY, KNOWLEDGE, DEEP_DIVE, BRAINSTORM}"
    by (auto simp add: rest_def)
  obtain i v where m: "m = (i, v)" by (cases m)
  show ?thesis
  proof (cases "v = 0")
    case True
    then show ?thesis
      by (simp add: fallback_classify_def fallback_classify_with_def sc mv m
          valid_classification_def fl_three_tenths)
  next
    case False
    with five m have "i \<in> {EMPATHY, KNOWLEDGE, DEEP_DIVE, BRAINSTORM}" by simp
    moreover from nonneg m have "0 \<le> v" by simp
    ultimately show ?thesis
      using False
      by (simp add: fallback_classify_def fallback_classify_with_def sc mv m Let_def
          valid_classification_def fallback_confidence_valid del: insert_iff)
        auto
  qed
qed


lemma intent_map_values:
  "(case map_of intent_map x of None \<Rightarrow> CHAT | Some i \<Rightarrow> i)
     \<in> {CHAT, EMPATHY, KNOWLEDGE, DEEP_DIVE, BRAINSTORM}"
  by (simp add: intent_map_def)

lemma clamp_valid:
  "\<exists>q. float_max (Finite 0) (float_min (Finite 1) c) = Finite q \<and> 0 \<le> q \<and> q \<le> 1"
  by (cases c) (auto simp add: float_max_def float_min_def)

lemma parse_result_valid:
  assumes "parse_result lower j = Inr r"
  shows "valid_classification r \<and> intent r \<in> {CHAT, EMPATHY, KNOWLEDGE, DEEP_DIVE, BRAINSTORM}"
proof -
  from assms obtain d s c where
    r: "r = \<lparr>intent = (case map_of intent_map (lower s) of None \<Rightarrow> CHAT | Some i \<Rightarrow> i),
              confidence = float_max (Finite 0) (float_min (Finite 1) c)\<rparr>"
    by (auto simp add: parse_result_def Let_def split: json.splits sum.splits)
  obtain q where "float_max (Finite 0) (float_min (Finite 1) c) = Finite q" "0 \<le> q" "q \<le> 1"
    using clamp_valid by blast
  then show ?thesis
    using intent_map_values [of "lower s"] by (simp add: r valid_classification_def)
qed

text \<open>
  C8: \<open>classify\<close> always returns one of the five primary categories and never the
  \<open>state\<close> intent, whether the result comes from the LLM or from the keyword fallback.
\<close>

theorem classify_never_state:
  "\<exists>r. fst (classify lower mgr cached t) = Inr r
       \<and> intent r \<in> {CHAT, EMPATHY, KNOWLEDGE, DEEP_DIVE, BRAINSTORM} \<and> intent r \<noteq> STATE"
proof -
  obtain r0 where f: "fallback_classify t = Inr r0"
    "intent r0 \<in> {CHAT, EMPATHY, KNOWLEDGE, DEEP_DIVE, BRAINSTORM}"
    using fallback_classify_total by blast
  have "\<exists>r. fst (classify lower mgr cached t) = Inr r
       \<and> intent r \<in> {CHAT, EMPATHY, KNOWLEDGE, DEEP_DIVE, BRAINSTORM}"
  proof (cases "router_get_provider mgr cached")
    case None
    then show ?thesis using f by (simp add: classify_def)
  next
    case (Some p)
    show ?thesis
    proof (cases "classify_llm lower p t")
      case (Inl e)
      then show ?thesis using f Some by (simp add: classify_def)
    next
      case (Inr r)
      then obtain j where "parse_result lower j = Inr r"
        by (auto simp add: classify_llm_def split: option.splits sum.splits)
      then have "intent r \<in> {CHAT, EMPATHY, KNOWLEDGE, DEEP_DIVE, BRAINSTORM}"
        using parse_result_valid by blast
      then show ?thesis using Inr Some by (simp add: classify_def)
    qed
  qed
  then show ?thesis by auto
qed

section \<open>Rounding of integers\<close>

lemma pow2_powi: "pow2 e = 2 powi e"
  by (simp add: pow2_def power_int_def power_one_over [symmetric] inverse_eq_divide)

lemma pow2_split: "pow2 e = 2 ^ 52 * pow2 (e - 52)"
proof -
  have "(2::rat) powi (52 + (e - 52)) = 2 powi 52 * 2 powi (e - 52)"
    by (rule power_int_add) simp
  moreover have "(2::rat) powi 52 = 2 ^ 52"
    using power_int_of_nat [of "2::rat" 52] by simp
  ultimately show ?thesis
    by (simp add: pow2_powi)
qed

lemma round_half_even_nonpos: "y \<le> 0 \<Longrightarrow> round_half_even y \<le> 0"
  by (auto simp add: round_half_even_def Let_def)

lemma round_half_even_ge_floor: "\<lfloor>y\<rfloor> \<le> round_half_even y"
  by (simp add: round_half_even_def Let_def)

lemma fl_nonpos: "x \<le> 0 \<Longrightarrow> fl x \<le> 0"
proof -
  assume x: "x \<le> 0"
  have "x / pow2 e \<le> 0" for e
    using x pow2_pos [of e] by (simp add: divide_nonpos_pos)
  then have "of_int (round_half_even (x / pow2 e)) * pow2 e \<le> 0" for e
    using round_half_even_nonpos [of "x / pow2 e"] pow2_pos [of e]
    by (simp add: mult_nonpos_nonneg less_imp_le)
  then show ?thesis by (simp add: fl_def Let_def)
qed

lemma fl_ge_pow2:
  assumes "pow2 e \<le> x" "binade x = e"
  shows "pow2 e \<le> fl x"
proof -
  define u where "u = pow2 (e - 52)"
  have u: "0 < u" by (simp add: u_def pow2_pos)
  have x: "0 < x" using assms(1) pow2_pos [of e] by simp
  have e: "pow2 e = of_int (2 ^ 52) * u"
    using pow2_split [of e] by (simp add: u_def)
  have "of_int (2 ^ 52) \<le> x / u"
    using assms(1) u by (simp add: e pos_le_divide_eq)
  then have "2 ^ 52 \<le> \<lfloor>x / u\<rfloor>"
    by (simp only: le_floor_iff)
  also have "\<dots> \<le> round_half_even (x / u)"
    by (rule round_half_even_ge_floor)
  finally have "(of_int (2 ^ 52) :: rat) \<le> of_int (round_half_even (x / u))"
    by (simp only: of_int_le_iff)
  then have "of_int (2 ^ 52) * u \<le> of_int (round_half_even (x / u)) * u"
    using u by (simp only: mult_le_cancel_right_pos)
  then show ?thesis
    using x by (simp add: fl_def Let_def assms(2) u_def [symmetric] e)
qed

lemma binade_of_int:
  assumes "1 \<le> n"
  shows "binade (of_int n) = bitlen n - 1" "pow2 (bitlen n - 1) \<le> of_int n" "0 \<le> bitlen n - 1"
proof -
  have b: "2 ^ nat (bitlen n - 1) \<le> n"
    using bitlen_bounds [of n] assms by simp
  have one: "bitlen 1 = 1" by code_simp
  have "1 \<le> bitlen n"
    using assms by (simp add: bitlen_ge_iff_power)
  then show nn: "0 \<le> bitlen n - 1" by simp
  have "(of_int (2 ^ nat (bitlen n - 1)) :: rat) \<le> of_int n"
    using b by (simp only: of_int_le_iff)
  then show p: "pow2 (bitlen n - 1) \<le> of_int n"
    using nn by (simp add: pow2_def)
  have "quotient_of (of_int n) = (n, 1)" by simp
  then show "binade (of_int n) = bitlen n - 1"
    using p assms by (simp add: binade_def one)
qed

lemma fl_of_int_ge_one:
  assumes "1 \<le> n"
  shows "1 \<le> fl (of_int n)"
proof -
  have "pow2 (bitlen n - 1) \<le> fl (of_int n)"
    using binade_of_int [OF assms] by (intro fl_ge_pow2) simp_all
  moreover have "1 \<le> pow2 (bitlen n - 1)"
    using binade_of_int(3) [OF assms] by (simp add: pow2_def)
  ultimately show ?thesis by simp
qed

lemma clamp_of_int:
  "float_max (Finite 0) (float_min (Finite 1) (Finite (fl (of_int n)))) = Finite (if n \<le> 0 then 0 else 1)"
proof (cases "n \<le> 0")
  case True
  then have "fl (of_int n) \<le> 0" by (simp add: fl_nonpos)
  then show ?thesis using True by (simp add: float_max_def float_min_def)
next
  case False
  then have "1 \<le> fl (of_int n)" by (simp add: fl_of_int_ge_one)
  then show ?thesis using False by (simp add: float_max_def float_min_def)
qed

section \<open>Classification through the client\<close>

lemma oshiete: "fallback_classify [0x6559, 0x3048, 0x3066]
             = Inr \<lparr>intent = KNOWLEDGE, confidence = Finite (fl (7 / 10))\<rparr>"
proof -
  have m: "(KNOWLEDGE, knowledge_keywords) \<in> set KEYWORD_MAP"
    by (simp add: KEYWORD_MAP_def)
  have hit: "\<exists>kw\<in>set knowledge_keywords. sublist kw [0x6559, 0x3048, 0x3066]"
    unfolding contains_iff_sublist [symmetric] by (simp add: knowledge_keywords_def)
  have others: "\<forall>(c', kws')\<in>set KEYWORD_MAP. c' \<noteq> KNOWLEDGE \<longrightarrow> (\<forall>kw\<in>set kws'. \<not> sublist kw [0x6559, 0x3048, 0x3066])"
    unfolding contains_iff_sublist [symmetric]
    by (simp add: KEYWORD_MAP_def empathy_keywords_def deep_dive_keywords_def brainstorm_keywords_def)
  from single_category_result [OF m hit others] show ?thesis
    by (rule conjunct2)
qed

lemma ascii_keys: "ascii ''intent'' \<noteq> ascii ''confidence''" "ascii ''confidence'' \<noteq> ascii ''intent''"
  by (simp_all add: ascii_def)

text \<open>
  C3 as stated fails: for the object with \<open>intent\<close> null, \<open>.lower()\<close> raises, the
  handler of \<open>classify\<close> falls back to the keywords, and the input then classifies as
  knowledge with confidence \<open>0.7\<close> instead of chat with \<open>0.5\<close>.
\<close>

theorem null_intent_counterexample:
  "fst (classify ascii_lower (manager_of (json_provider (JDict [(ascii ''intent'', JNull)]))) None
         [0x6559, 0x3048, 0x3066])
     = Inr \<lparr>intent = KNOWLEDGE, confidence = Finite (fl (7 / 10))\<rparr>"
  by (simp add: classify_def router_get_provider_def manager_of_def classify_llm_def
      json_provider_def parse_result_def dict_get_def oshiete)

lemma fl_half: "fl (1 / 2) = 1 / 2"
  by code_simp

lemma classify_llm_path:
  assumes "router_get_provider mgr cached = Some p"
    and "initialize p = None"
    and "generate_json p [(System, router_system_prompt), (User, t)] (fl (1 / 10)) = Inr j"
  shows "fst (classify lower mgr cached t) =
           (case parse_result lower j of Inr r \<Rightarrow> Inr r | Inl e \<Rightarrow> fallback_classify t)"
  using assms by (simp add: classify_def classify_llm_def split: sum.splits)


lemma parse_result_raises:
  "\<not> intent_usable d \<or> \<not> confidence_convertible d \<Longrightarrow> \<exists>e. parse_result lower (JDict d) = Inl e"
  by (auto simp add: parse_result_def intent_usable_def confidence_convertible_def dict_get_def
      confidence_float_def float_of_int_def Let_def split: option.splits json.splits)

lemma parse_result_accepts:
  assumes "intent_usable d" "confidence_convertible d"
  shows "\<exists>s c. (map_of d (ascii ''intent'') = None \<and> s = ascii ''chat''
                 \<or> map_of d (ascii ''intent'') = Some (JStr s))
             \<and> confidence_float (dict_get d (ascii ''confidence'') (JFloat (Finite (fl (1 / 2))))) = Inr c
             \<and> parse_result lower (JDict d) =
                 Inr \<lparr>intent = (case map_of intent_map (lower s) of None \<Rightarrow> CHAT | Some i \<Rightarrow> i),
                      confidence = float_max (Finite 0) (float_min (Finite 1) c)\<rparr>"
  using assms
  by (auto simp add: parse_result_def intent_usable_def confidence_convertible_def dict_get_def
      confidence_float_def float_of_int_def Let_def split: option.splits json.splits)

text \<open>
  C3, as amended: for every JSON object returned by the client, \<open>classify\<close> returns a
  valid result without raising. When the \<open>intent\<close> value is missing or a string and the
  \<open>confidence\<close> can be converted, a missing or unknown intent gives chat and a known one
  its category; a missing or non-numeric \<open>confidence\<close> gives \<open>0.5\<close>, a float is clamped
  into \<open>[0, 1]\<close>, an integer gives \<open>0.0\<close> when it is at most 0 and \<open>1.0\<close> otherwise
  (its clamped value), and a boolean counts as \<open>1.0\<close> or \<open>0.0\<close>. When the \<open>intent\<close> value
  is present but not a string, or the \<open>confidence\<close> is an integer too large for a float,
  parsing raises inside \<open>classify\<close> and the result is that of the keyword fallback.
\<close>

theorem llm_path_classification:
  assumes prov: "router_get_provider mgr cached = Some p"
    and init: "initialize p = None"
    and gen: "generate_json p [(System, router_system_prompt), (User, t)] (fl (1 / 10)) = Inr (JDict d)"
    and low: "lower (ascii ''chat'') = ascii ''chat''"
  shows "(\<exists>r. fst (classify lower mgr cached t) = Inr r \<and> valid_classification r)
       \<and> (\<not> intent_usable d \<or> \<not> confidence_convertible d
            \<longrightarrow> fst (classify lower mgr cached t) = fallback_classify t)
       \<and> (intent_usable d \<and> confidence_convertible d \<longrightarrow>
            (\<exists>r. fst (classify lower mgr cached t) = Inr r
               \<and> (map_of d (ascii ''intent'') = None \<longrightarrow> intent r = CHAT)
               \<and> (\<forall>s. map_of d (ascii ''intent'') = Some (JStr s) \<and> map_of intent_map (lower s) = None
                       \<longrightarrow> intent r = CHAT)
               \<and> (\<forall>s i. map_of d (ascii ''intent'') = Some (JStr s) \<and> map_of intent_map (lower s) = Some i
                       \<longrightarrow> intent r = i)
               \<and> (map_of d (ascii ''confidence'') = None \<longrightarrow> confidence r = Finite (1 / 2))
               \<and> (\<forall>v. map_of d (ascii ''confidence'') = Some v
                        \<and> (\<forall>b. v \<noteq> JBool b) \<and> (\<forall>n. v \<noteq> JInt n) \<and> (\<forall>f. v \<noteq> JFloat f)
                       \<longrightarrow> confidence r = Finite (1 / 2))
               \<and> (\<forall>f. map_of d (ascii ''confidence'') = Some (JFloat f)
                       \<longrightarrow> confidence r = float_max (Finite 0) (float_min (Finite 1) f))
               \<and> (\<forall>b. map_of d (ascii ''confidence'') = Some (JBool b)
                       \<longrightarrow> confidence r = Finite (if b then 1 else 0))
               \<and> (\<forall>n. map_of d (ascii ''confidence'') = Some (JInt n)
                       \<longrightarrow> confidence r = Finite (if n \<le> 0 then 0 else 1))))"
proof -
  let ?R = "fst (classify lower mgr cached t)"
  have R: "?R = (case parse_result lower (JDict d) of Inr r \<Rightarrow> Inr r | Inl e \<Rightarrow> fallback_classify t)"
    using prov init gen by (rule classify_llm_path)
  have valid: "\<exists>r. ?R = Inr r \<and> valid_classification r"
  proof (cases "parse_result lower (JDict d)")
    case (Inl e)
    then show ?thesis using fallback_classify_total [of t] by (auto simp add: R)
  next
    case (Inr r)
    then show ?thesis using parse_result_valid [OF Inr] by (simp add: R)
  qed
  have raises: "?R = fallback_classify t" if "\<not> intent_usable d \<or> \<not> confidence_convertible d"
    using parse_result_raises [OF that, of lower] by (auto simp add: R)
  have accepts: "\<exists>r. ?R = Inr r
               \<and> (map_of d (ascii ''intent'') = None \<longrightarrow> intent r = CHAT)
               \<and> (\<forall>s. map_of d (ascii ''intent'') = Some (JStr s) \<and> map_of intent_map (lower s) = None
                       \<longrightarrow> intent r = CHAT)
               \<and> (\<forall>s i. map_of d (ascii ''intent'') = Some (JStr s) \<and> map_of intent_map (lower s) = Some i
                       \<longrightarrow> intent r = i)
               \<and> (map_of d (ascii ''confidence'') = None \<longrightarrow> confidence r = Finite (1 / 2))
               \<and> (\<forall>v. map_of d (ascii ''confidence'') = Some v
                        \<and> (\<forall>b. v \<noteq> JBool b) \<and> (\<forall>n. v \<noteq> JInt n) \<and> (\<forall>f. v \<noteq> JFloat f)
                       \<longrightarrow> confidence r = Finite (1 / 2))
               \<and> (\<forall>f. map_of d (ascii ''confidence'') = Some (JFloat f)
                       \<longrightarrow> confidence r = float_max (Finite 0) (float_min (Finite 1) f))
               \<and> (\<forall>b. map_of d (ascii ''confidence'') = Some (JBool b)
                       \<longrightarrow> confidence r = Finite (if b then 1 else 0))
               \<and> (\<forall>n. map_of d (ascii ''confidence'') = Some (JInt n)
                       \<longrightarrow> confidence r = Finite (if n \<le> 0 then 0 else 1))"
    if u: "intent_usable d" "confidence_convertible d"
  proof -
    from parse_result_accepts [OF u, of lower] obtain s c where
      s: "map_of d (ascii ''intent'') = None \<and> s = ascii ''chat''
           \<or> map_of d (ascii ''intent'') = Some (JStr s)"
      and c: "confidence_float (dict_get d (ascii ''confidence'') (JFloat (Finite (fl (1 / 2))))) = Inr c"
      and pr: "parse_result lower (JDict d) =
                 Inr \<lparr>intent = (case map_of intent_map (lower s) of None \<Rightarrow> CHAT | Some i \<Rightarrow> i),
                      confidence = float_max (Finite 0) (float_min (Finite 1) c)\<rparr>"
      by blast
    have chat: "map_of intent_map (ascii ''chat'') = Some CHAT"
      by (simp add: intent_map_def)
    have i1: "map_of d (ascii ''intent'') = None \<Longrightarrow>
        (case map_of intent_map (lower s) of None \<Rightarrow> CHAT | Some i \<Rightarrow> i) = CHAT"
      using s low chat by auto
    have i2: "map_of d (ascii ''intent'') = Some (JStr s') \<Longrightarrow> s' = s" for s'
      using s by auto
    have half: "float_max (Finite 0) (float_min (Finite 1) (Finite (fl (1 / 2)))) = Finite (1 / 2)"
      by (simp add: fl_half float_max_def float_min_def)
    have c1: "map_of d (ascii ''confidence'') = None \<Longrightarrow> c = Finite (fl (1 / 2))"
      using c by (simp add: dict_get_def confidence_float_def)
    have c2: "map_of d (ascii ''confidence'') = Some v \<Longrightarrow>
        (\<forall>b. v \<noteq> JBool b) \<and> (\<forall>n. v \<noteq> JInt n) \<and> (\<forall>f. v \<noteq> JFloat f) \<Longrightarrow> c = Finite (fl (1 / 2))" for v
      using c by (cases v) (auto simp add: dict_get_def confidence_float_def)
    have c3: "map_of d (ascii ''confidence'') = Some (JFloat f) \<Longrightarrow> c = f" for f
      using c by (simp add: dict_get_def confidence_float_def)
    have c4: "map_of d (ascii ''confidence'') = Some (JBool b) \<Longrightarrow>
        float_max (Finite 0) (float_min (Finite 1) c) = Finite (if b then 1 else 0)" for b
      using c by (cases b) (auto simp add: dict_get_def confidence_float_def float_max_def float_min_def)
    have c5: "map_of d (ascii ''confidence'') = Some (JInt n) \<Longrightarrow>
        float_max (Finite 0) (float_min (Finite 1) c) = Finite (if n \<le> 0 then 0 else 1)" for n
      using c u(2)
      by (auto simp add: dict_get_def confidence_float_def float_of_int_def confidence_convertible_def
          clamp_of_int simp del: of_int_le_iff)
    show ?thesis
      using i1 i2 c1 c2 c3 c4 c5 half by (auto simp add: R pr)
  qed
  show ?thesis
    using valid raises accepts by blast
qed

theorem llm_path_classification_witness:
  "\<exists>r. fst (classify ascii_lower
            (manager_of (json_provider (JDict [(ascii ''intent'', JStr (ascii ''EMPATHY'')),
                                               (ascii ''confidence'', JFloat (Finite 2))])))
            None []) = Inr r
       \<and> intent r = EMPATHY \<and> confidence r = Finite 1"
proof -
  define d where "d = [(ascii ''intent'', JStr (ascii ''EMPATHY'')), (ascii ''confidence'', JFloat (Finite 2))]"
  define P where "P = json_provider (JDict d)"
  have a1: "router_get_provider (manager_of P) None = Some P"
    by (simp add: router_get_provider_def manager_of_def)
  have a2: "initialize P = None"
    by (simp add: P_def json_provider_def)
  have a3: "generate_json P [(System, router_system_prompt), (User, [])] (fl (1 / 10)) = Inr (JDict d)"
    by (simp add: P_def json_provider_def)
  have a4: "ascii_lower (ascii ''chat'') = ascii ''chat''"
    by (simp add: ascii_lower_def ascii_def)
  have i: "map_of d (ascii ''intent'') = Some (JStr (ascii ''EMPATHY''))"
    by (simp add: d_def)
  have c: "map_of d (ascii ''confidence'') = Some (JFloat (Finite 2))"
    by (simp add: d_def ascii_keys)
  have u: "intent_usable d \<and> confidence_convertible d"
    by (simp add: intent_usable_def confidence_convertible_def i c)
  have m: "map_of intent_map (ascii_lower (ascii ''EMPATHY'')) = Some EMPATHY"
    by (simp add: intent_map_def ascii_lower_def ascii_def)
  have cl: "float_max (Finite 0) (float_min (Finite 1) (Finite 2)) = Finite 1"
    by (simp add: float_max_def float_min_def)
  from llm_path_classification [of "manager_of P" None P "[]" d ascii_lower, OF a1 a2 a3 a4] u
  obtain r where r: "fst (classify ascii_lower (manager_of P) None []) = Inr r"
    and ri: "\<forall>s i. map_of d (ascii ''intent'') = Some (JStr s) \<and> map_of intent_map (ascii_lower s) = Some i
                       \<longrightarrow> intent r = i"
    and rc: "\<forall>f. map_of d (ascii ''confidence'') = Some (JFloat f)
                       \<longrightarrow> confidence r = float_max (Finite 0) (float_min (Finite 1) f)"
    by blast
  from ri i m have "intent r = EMPATHY" by blast
  moreover from rc c cl have "confidence r = Finite 1" by simp
  ultimately show ?thesis using r by (simp add: P_def d_def)
qed

section \<open>Emotion trend at the boundary\<close>

lemma boundary_counts:
  "count_in [(ascii ''frustrated'', 9), (ascii ''calm'', 1)] fatigue = 9"
  "count_in [(ascii ''frustrated'', 7), (ascii ''calm'', 3)] fatigue = 7"
  "total_or_one [(ascii ''frustrated'', 9), (ascii ''calm'', 1)] = 10"
  "total_or_one [(ascii ''frustrated'', 7), (ascii ''calm'', 3)] = 10"
  by (simp_all add: count_in_def fatigue_def counter_get_def total_or_one_def counter_total_def ascii_def)

lemma boundary_rounding: "fadd (fdiv 7 10) (fl (2 / 10)) < fdiv 9 10"
  by code_simp

text \<open>
  C6: with nine of ten recent emotions and seven of ten older emotions in the fatigue set,
  the recent fatigue ratio exceeds the older one by exactly \<open>0.20\<close>. The detector
  nevertheless answers \<open>fatigue_increasing\<close>: the double sum \<open>0.7 + 0.2\<close> rounds to
  \<open>0.8999999999999999\<close>, which is below the double \<open>0.9\<close>.
\<close>

theorem fatigue_boundary_evaluation:
  "detect_emotion_trend [(ascii ''frustrated'', 9), (ascii ''calm'', 1)]
                        [(ascii ''frustrated'', 7), (ascii ''calm'', 3)] = ascii ''fatigue_increasing''
   \<and> (9 / 10 - 7 / 10 :: rat) = 2 / 10"
  unfolding detect_emotion_trend_def Let_def boundary_counts
  using boundary_rounding by simp

section \<open>Topic and emotion aggregation\<close>

lemma map_of_counter_inc:
  "map_of (counter_inc k c) k' = (if k' = k then Some (counter_get c k + 1) else map_of c k')"
  by (induction c) (auto simp add: counter_get_def)

lemma counter_get_inc:
  "counter_get (counter_inc k c) k' = counter_get c k' + (if k' = k then 1 else 0)"
  by (simp add: counter_get_def map_of_counter_inc)

lemma keys_counter_inc: "set (map fst (counter_inc k c)) = insert k (set (map fst c))"
proof (induction c)
  case Nil
  then show ?case by simp
next
  case (Cons a c)
  obtain k' n where a: "a = (k', n)" by (cases a)
  show ?case using Cons by (cases "k' = k") (simp_all add: a insert_commute)
qed

lemma distinct_counter_inc:
  "distinct (map fst c) \<Longrightarrow> distinct (map fst (counter_inc k c))"
proof (induction c)
  case Nil
  then show ?case by simp
next
  case (Cons a c)
  obtain k' n where a: "a = (k', n)" by (cases a)
  show ?case
  proof (cases "k' = k")
    case True
    then show ?thesis using Cons.prems a by simp
  next
    case False
    have "k' \<notin> set (map fst (counter_inc k c))"
      using Cons.prems False a by (simp only: keys_counter_inc) simp
    then show ?thesis using Cons a False by simp
  qed
qed

lemma counter_total_inc: "counter_total (counter_inc k c) = counter_total c + 1"
  by (induction c) (auto simp add: counter_total_def)

lemma map_of_topic_inc:
  "map_of (topic_inc t e te) t' =
     (if t' = t then Some (counter_inc e (topic_counter te t)) else map_of te t')"
  by (induction te) (auto simp add: topic_counter_def)

lemma topic_counter_inc:
  "topic_counter (topic_inc t e te) t' =
     (if t' = t then counter_inc e (topic_counter te t) else topic_counter te t')"
  by (simp add: topic_counter_def map_of_topic_inc)

lemma keys_topic_inc: "set (map fst (topic_inc t e te)) = insert t (set (map fst te))"
proof (induction te)
  case Nil
  then show ?case by simp
next
  case (Cons a te)
  obtain t' c where a: "a = (t', c)" by (cases a)
  show ?case using Cons by (cases "t' = t") (simp_all add: a insert_commute)
qed

lemma distinct_topic_inc:
  "distinct (map fst te) \<Longrightarrow> distinct (map fst (topic_inc t e te))"
proof (induction te)
  case Nil
  then show ?case by simp
next
  case (Cons a te)
  obtain t' c where a: "a = (t', c)" by (cases a)
  show ?case
  proof (cases "t' = t")
    case True
    then show ?thesis using Cons.prems a by simp
  next
    case False
    have "t' \<notin> set (map fst (topic_inc t e te))"
      using Cons.prems False a by (simp only: keys_topic_inc) simp
    then show ?thesis using Cons a False by simp
  qed
qed

lemma fold_counter_inc_get:
  "counter_get (fold counter_inc es c) e = counter_get c e + count_list es e"
  by (induction es arbitrary: c) (simp_all add: counter_get_inc)

lemma fold_counter_inc_total:
  "counter_total (fold counter_inc es c) = counter_total c + length es"
  by (induction es arbitrary: c) (simp_all add: counter_total_inc)

lemma fold_counter_inc_distinct:
  "distinct (map fst c) \<Longrightarrow> distinct (map fst (fold counter_inc es c))"
  by (induction es arbitrary: c) (simp_all add: distinct_counter_inc)

lemma add_topic_emotions_counter:
  "topic_counter (add_topic_emotions t es te) t' =
     (if t' = t then fold counter_inc es (topic_counter te t) else topic_counter te t')"
  unfolding add_topic_emotions_def
  by (induction es arbitrary: te) (simp_all add: topic_counter_inc)

lemma add_topic_emotions_distinct:
  "distinct (map fst te) \<Longrightarrow> distinct (map fst (add_topic_emotions t es te))"
  unfolding add_topic_emotions_def
  by (induction es arbitrary: te) (simp_all add: distinct_topic_inc)

lemma fold_topics_get:
  "counter_get (topic_counter (fold (\<lambda>topic te. add_topic_emotions topic es te) ts te) t) e =
     counter_get (topic_counter te t) e + count_list ts t * count_list es e"
  by (induction ts arbitrary: te) (simp_all add: add_topic_emotions_counter fold_counter_inc_get)

lemma fold_topics_total:
  "counter_total (topic_counter (fold (\<lambda>topic te. add_topic_emotions topic es te) ts te) t) =
     counter_total (topic_counter te t) + count_list ts t * length es"
  by (induction ts arbitrary: te) (simp_all add: add_topic_emotions_counter fold_counter_inc_total)

lemma fold_topics_distinct:
  "distinct (map fst te) \<Longrightarrow>
     distinct (map fst (fold (\<lambda>topic te. add_topic_emotions topic es te) ts te))"
  by (induction ts arbitrary: te) (simp_all add: add_topic_emotions_distinct)

lemma fold_topics_counters_distinct:
  "\<forall>t. distinct (map fst (topic_counter te t)) \<Longrightarrow>
     distinct (map fst (topic_counter (fold (\<lambda>topic te. add_topic_emotions topic es te) ts te) t))"
  by (induction ts arbitrary: te t)
     (simp_all add: add_topic_emotions_counter fold_counter_inc_distinct)

lemma collect_from_get:
  "counter_get (topic_counter (fold add_log_topics logs te) t) e =
     counter_get (topic_counter te t) e + cooccurrences logs t e"
  by (induction logs arbitrary: te)
     (simp_all add: cooccurrences_def add_log_topics_def fold_topics_get)

lemma collect_from_total:
  "counter_total (topic_counter (fold add_log_topics logs te) t) =
     counter_total (topic_counter te t) + topic_occurrences logs t"
  by (induction logs arbitrary: te)
     (simp_all add: topic_occurrences_def add_log_topics_def fold_topics_total)

lemma collect_from_distinct:
  "distinct (map fst te) \<Longrightarrow> distinct (map fst (fold add_log_topics logs te))"
  by (induction logs arbitrary: te) (simp_all add: add_log_topics_def fold_topics_distinct)

lemma collect_from_counters_distinct:
  "\<forall>t. distinct (map fst (topic_counter te t)) \<Longrightarrow>
     distinct (map fst (topic_counter (fold add_log_topics logs te) t))"
  by (induction logs arbitrary: te t)
     (simp_all add: add_log_topics_def fold_topics_counters_distinct)

lemma empty_counters:
  "topic_counter [] t = []" "counter_get [] e = 0" "counter_total [] = 0"
  by (simp_all add: topic_counter_def counter_get_def counter_total_def)

lemma collect_facts:
  "counter_get (topic_counter (collect_topic_emotions logs) t) e = cooccurrences logs t e"
  "counter_total (topic_counter (collect_topic_emotions logs) t) = topic_occurrences logs t"
  "distinct (map fst (collect_topic_emotions logs))"
  "distinct (map fst (topic_counter (collect_topic_emotions logs) t))"
  by (simp_all add: collect_topic_emotions_def collect_from_get collect_from_total
      collect_from_distinct collect_from_counters_distinct empty_counters)

lemma topic_counter_member:
  assumes "distinct (map fst te)" "(t, c) \<in> set te"
  shows "topic_counter te t = c"
  using assms by (simp add: topic_counter_def)

lemma topic_counter_absent:
  assumes "t \<notin> set (map fst te)"
  shows "topic_counter te t = []"
proof -
  have "map_of te t = None"
    using assms by (simp add: map_of_eq_None_iff)
  then show ?thesis by (simp add: topic_counter_def)
qed

lemma most_common_one:
  assumes "c \<noteq> []"
  shows "\<exists>d. most_common 1 c = [d] \<and> d \<in> set c \<and> (\<forall>x\<in>set c. snd x \<le> snd d)"
proof -
  define s where "s = sort_key (\<lambda>kv. - int (snd kv)) c"
  have ne: "s \<noteq> []"
    using assms by (simp add: s_def)
       (metis length_sort list.size(3) length_0_conv)
  then obtain d s' where s: "s = d # s'" by (cases s) auto
  have set: "set s = set c" by (simp add: s_def)
  have "sorted (map (\<lambda>kv. - int (snd kv)) s)"
    by (simp add: s_def)
  then have "\<forall>x\<in>set s'. snd x \<le> snd d"
    by (auto simp add: s)
  then have "\<forall>x\<in>set c. snd x \<le> snd d"
    using set by (auto simp add: s)
  moreover have "d \<in> set c" using set by (auto simp add: s)
  moreover have "most_common 1 c = [d]"
    by (simp add: most_common_def s_def [symmetric] s)
  ultimately show ?thesis by blast
qed

lemma counter_total_nonempty: "2 \<le> counter_total c \<Longrightarrow> c \<noteq> []"
  by (auto simp add: counter_total_def)

lemma counter_get_member:
  assumes "distinct (map fst c)" "(e, n) \<in> set c"
  shows "counter_get c e = n"
  using assms by (simp add: counter_get_def)

lemma counter_get_absent:
  assumes "e \<notin> set (map fst c)"
  shows "counter_get c e = 0"
proof -
  have "map_of c e = None"
    using assms by (simp add: map_of_eq_None_iff)
  then show ?thesis by (simp add: counter_get_def)
qed

lemma summarize_topics_result:
  "\<exists>r. summarize_topics te = Inr r
       \<and> map fst r = map fst (filter (\<lambda>(t, c). 2 \<le> counter_total c) te)
       \<and> (\<forall>(t, info)\<in>set r. \<exists>c d. (t, c) \<in> set te \<and> 2 \<le> counter_total c
              \<and> most_common 1 c = [d]
              \<and> info = \<lparr>dominant_emotion = fst d, count = counter_total c, distribution = c\<rparr>)"
proof (induction te)
  case Nil
  then show ?case by simp
next
  case (Cons a te)
  obtain t c where a: "a = (t, c)" by (cases a)
  from Cons obtain r where r: "summarize_topics te = Inr r"
    "map fst r = map fst (filter (\<lambda>(t, c). 2 \<le> counter_total c) te)"
    "\<forall>(t, info)\<in>set r. \<exists>c d. (t, c) \<in> set te \<and> 2 \<le> counter_total c
              \<and> most_common 1 c = [d]
              \<and> info = \<lparr>dominant_emotion = fst d, count = counter_total c, distribution = c\<rparr>"
    by blast
  show ?case
  proof (cases "counter_total c < 2")
    case True
    then show ?thesis using r by (auto simp add: a)
  next
    case False
    then have "c \<noteq> []" by (simp add: counter_total_nonempty)
    then obtain d where d: "most_common 1 c = [d]"
      using most_common_one by blast
    have "summarize_topics (a # te) =
        Inr ((t, \<lparr>dominant_emotion = fst d, count = counter_total c, distribution = c\<rparr>) # r)"
      using False r(1) d by (simp add: a)
    then show ?thesis
      using False r(2,3) d by (auto simp add: a intro: surjective_pairing)
  qed
qed


text \<open>
  C7: the aggregation never raises; it retains exactly the topics with at least two
  accompanying emotion occurrences, so no retained topic has fewer than two. Every retained
  topic reports as its count its total number of emotion occurrences, as its distribution
  the full count of every emotion co-occurring with it, and as dominant an emotion whose
  count is the largest of the distribution.
\<close>

theorem topic_emotion_aggregation:
  "\<exists>result. aggregate_topic_emotions logs = Inr result
     \<and> distinct (map fst result)
     \<and> (\<forall>topic. topic \<in> set (map fst result) \<longleftrightarrow> 2 \<le> topic_occurrences logs topic)
     \<and> (\<forall>(topic, info)\<in>set result.
           2 \<le> count info
         \<and> count info = topic_occurrences logs topic
         \<and> count info = counter_total (distribution info)
         \<and> distinct (map fst (distribution info))
         \<and> (\<forall>e. counter_get (distribution info) e = cooccurrences logs topic e)
         \<and> 0 < cooccurrences logs topic (dominant_emotion info)
         \<and> (\<forall>e. cooccurrences logs topic e \<le> cooccurrences logs topic (dominant_emotion info)))"
proof -
  define te where "te = collect_topic_emotions logs"
  have dte: "distinct (map fst te)"
    by (simp add: te_def collect_facts)
  have tc: "topic_counter te t = c" if "(t, c) \<in> set te" for t c
    using dte that by (rule topic_counter_member)
  have tot: "counter_total (topic_counter te t) = topic_occurrences logs t" for t
    by (simp add: te_def collect_facts)
  have get: "counter_get (topic_counter te t) e = cooccurrences logs t e" for t e
    by (simp add: te_def collect_facts)
  have dc: "distinct (map fst (topic_counter te t))" for t
    by (simp add: te_def collect_facts)
  obtain r where r: "summarize_topics te = Inr r"
    and keys: "map fst r = map fst (filter (\<lambda>(t, c). 2 \<le> counter_total c) te)"
    and ent: "\<forall>(t, info)\<in>set r. \<exists>c d. (t, c) \<in> set te \<and> 2 \<le> counter_total c
              \<and> most_common 1 c = [d]
              \<and> info = \<lparr>dominant_emotion = fst d, count = counter_total c, distribution = c\<rparr>"
    using summarize_topics_result [of te] by blast
  have res: "aggregate_topic_emotions logs = Inr r"
    by (simp add: aggregate_topic_emotions_def te_def [symmetric] r)
  have dist: "distinct (map fst r)"
    unfolding keys using dte by (rule distinct_map_filter)
  have mem: "t \<in> set (map fst r) \<longleftrightarrow> 2 \<le> topic_occurrences logs t" for t
  proof
    assume "t \<in> set (map fst r)"
    then obtain c where "(t, c) \<in> set te" "2 \<le> counter_total c"
      unfolding keys by auto
    then show "2 \<le> topic_occurrences logs t"
      using tc [of t c] tot [of t] by simp
  next
    assume two: "2 \<le> topic_occurrences logs t"
    have "t \<in> set (map fst te)"
    proof (rule ccontr)
      assume "t \<notin> set (map fst te)"
      then have "topic_counter te t = []" by (rule topic_counter_absent)
      then show False using two tot [of t] by (simp add: empty_counters)
    qed
    then obtain c where c: "(t, c) \<in> set te" by auto
    then have "2 \<le> counter_total c"
      using two tc [OF c] tot [of t] by simp
    then show "t \<in> set (map fst r)"
      unfolding keys using c by force
  qed
  have entry: "2 \<le> count info
         \<and> count info = topic_occurrences logs t
         \<and> count info = counter_total (distribution info)
         \<and> distinct (map fst (distribution info))
         \<and> (\<forall>e. counter_get (distribution info) e = cooccurrences logs t e)
         \<and> 0 < cooccurrences logs t (dominant_emotion info)
         \<and> (\<forall>e. cooccurrences logs t e \<le> cooccurrences logs t (dominant_emotion info))"
    if "(t, info) \<in> set r" for t info
  proof -
    from ent that obtain c d where c: "(t, c) \<in> set te" "2 \<le> counter_total c"
      and d: "most_common 1 c = [d]"
      and info: "info = \<lparr>dominant_emotion = fst d, count = counter_total c, distribution = c\<rparr>"
      by blast
    have ct: "topic_counter te t = c" using c(1) by (rule tc)
    have cne: "c \<noteq> []" using c(2) by (rule counter_total_nonempty)
    from most_common_one [OF cne] d have dmem: "d \<in> set c" and dmax: "\<forall>x\<in>set c. snd x \<le> snd d"
      by auto
    have dcc: "distinct (map fst c)" using dc [of t] by (simp add: ct)
    have gd: "counter_get c (fst d) = snd d"
      using dcc dmem by (intro counter_get_member) simp_all
    have le: "counter_get c e \<le> snd d" for e
    proof (cases "e \<in> set (map fst c)")
      case True
      then obtain n where n: "(e, n) \<in> set c" by auto
      then have "counter_get c e = n" using dcc by (intro counter_get_member)
      then show ?thesis using dmax n by auto
    next
      case False
      then show ?thesis by (simp add: counter_get_absent)
    qed
    have pos: "0 < snd d"
    proof (rule ccontr)
      assume "\<not> 0 < snd d"
      then have "\<forall>x\<in>set c. snd x = 0" using dmax by auto
      then have "counter_total c = 0" by (simp add: counter_total_def)
      then show False using c(2) by simp
    qed
    have g: "counter_get c e = cooccurrences logs t e" for e
      using get [of t e] by (simp add: ct)
    show ?thesis
      using c(2) tot [of t] dcc g le pos gd by (simp add: info ct)
  qed
  show ?thesis
    using res dist mem entry by blast
qed

theorem topic_emotion_aggregation_witness:
  "\<exists>result. aggregate_topic_emotions
       (replicate 2 \<lparr>user_id = 1, content = None, created_at = 0, emotions = Some [ascii ''anxious''],
                      topics = Some [ascii ''work''], log_intent = None, is_analyzed = True\<rparr>)
       = Inr result
     \<and> distinct (map fst result) \<and> ascii ''work'' \<in> set (map fst result)"
proof -
  define logs where "logs = replicate 2 \<lparr>user_id = 1, content = None, created_at = 0,
      emotions = Some [ascii ''anxious''], topics = Some [ascii ''work''], log_intent = None,
      is_analyzed = True\<rparr>"
  have two: "2 \<le> topic_occurrences logs (ascii ''work'')"
    by (simp add: logs_def topic_occurrences_def or_empty_def numeral_2_eq_2)
  from topic_emotion_aggregation [of logs] obtain result where
    "aggregate_topic_emotions logs = Inr result" "distinct (map fst result)"
    "\<forall>topic. topic \<in> set (map fst result) \<longleftrightarrow> 2 \<le> topic_occurrences logs topic"
    by blast
  then show ?thesis
    using two unfolding logs_def by blast
qed

end
